theory Spec2Isabelle
  imports Complex_Main
begin

section \<open>Common data: exceptions and floating-point values\<close>

text \<open>
  The model-fitting engine is the Python class \<open>GLM\<close> of \<open>rfest/GLM/_glm.py\<close>.
  Every \<open>raise\<close> of the source, and every failing dictionary, list or attribute access,
  is a value of \<open>py_error\<close>; a method that can fail returns \<open>py_error + 'a\<close>.
\<close>

datatype py_error =
    KeyError
  | IndexError
  | ValueError
  | TypeError
  | AttributeError
  | NotImplementedError string
  | ShapeError  \<comment> \<open>the array library's exception for operands of incompatible shapes\<close>

text \<open>
  A floating-point number is a real number, one of the two infinities, or NaN. Arithmetic
  on finite values is exact (no rounding); the infinities and NaN follow IEEE 754. A NaN
  is a value like any other: the check \<open>jax_debug_nans\<close>, which the module switches on
  and which turns a NaN produced by an array operation into an exception, is not part
  of the model.
\<close>

datatype fl = Fin real | PInf | NInf | NaN

fun fl_neg :: "fl \<Rightarrow> fl" where
  "fl_neg (Fin a) = Fin (- a)"
| "fl_neg PInf = NInf"
| "fl_neg NInf = PInf"
| "fl_neg NaN = NaN"

fun fl_add :: "fl \<Rightarrow> fl \<Rightarrow> fl" where
  "fl_add NaN y = NaN"
| "fl_add x NaN = NaN"
| "fl_add (Fin a) (Fin b) = Fin (a + b)"
| "fl_add PInf NInf = NaN"
| "fl_add NInf PInf = NaN"
| "fl_add PInf y = PInf"
| "fl_add x PInf = PInf"
| "fl_add NInf y = NInf"
| "fl_add x NInf = NInf"

definition fl_sub :: "fl \<Rightarrow> fl \<Rightarrow> fl" where
  "fl_sub x y = fl_add x (fl_neg y)"

fun fl_mul :: "fl \<Rightarrow> fl \<Rightarrow> fl" where
  "fl_mul NaN y = NaN"
| "fl_mul x NaN = NaN"
| "fl_mul (Fin a) (Fin b) = Fin (a * b)"
| "fl_mul (Fin a) PInf = (if a = 0 then NaN else if 0 < a then PInf else NInf)"
| "fl_mul (Fin a) NInf = (if a = 0 then NaN else if 0 < a then NInf else PInf)"
| "fl_mul PInf (Fin b) = (if b = 0 then NaN else if 0 < b then PInf else NInf)"
| "fl_mul NInf (Fin b) = (if b = 0 then NaN else if 0 < b then NInf else PInf)"
| "fl_mul PInf PInf = PInf"
| "fl_mul NInf NInf = PInf"
| "fl_mul PInf NInf = NInf"
| "fl_mul NInf PInf = NInf"

fun fl_log :: "fl \<Rightarrow> fl" where
  "fl_log (Fin a) = (if 0 < a then Fin (ln a) else if a = 0 then NInf else NaN)"
| "fl_log PInf = PInf"
| "fl_log NInf = NaN"
| "fl_log NaN = NaN"

fun fl_less :: "fl \<Rightarrow> fl \<Rightarrow> bool" where
  \<comment> \<open>\<open>x < y\<close>; every comparison with NaN is false\<close>
  "fl_less NaN y = False"
| "fl_less x NaN = False"
| "fl_less (Fin a) (Fin b) = (a < b)"
| "fl_less x NInf = False"
| "fl_less NInf y = True"
| "fl_less PInf y = False"
| "fl_less x PInf = True"

definition fl_maximum :: "fl \<Rightarrow> fl \<Rightarrow> fl" where
  \<comment> \<open>\<open>jnp.maximum\<close>, which propagates NaN\<close>
  "fl_maximum x y = (if x = NaN \<or> y = NaN then NaN else if fl_less x y then y else x)"

definition fl_sum :: "fl list \<Rightarrow> fl" where
  \<comment> \<open>\<open>jnp.sum\<close> of a one-dimensional array\<close>
  "fl_sum xs = foldr fl_add xs (Fin 0)"

section \<open>Metric evaluation (\<open>GLM.compute_score\<close>)\<close>

text \<open>
  The five metric functions come from \<open>rfest.metrics\<close>, which is outside the core; they
  are parameters. \<open>self.edf_tot\<close> is read by \<open>r2adj\<close> and \<open>gcv\<close>; the attribute may be
  absent (\<open>None\<close>), and reading it then raises \<open>AttributeError\<close>.

  The result of \<open>compute_score\<close> is the list of lines printed and either the exception
  raised or the value returned, where \<open>Inr None\<close> is Python's \<open>None\<close> (the function
  falls off its end).
\<close>

record ('y, 'e) metric_fns =
  r2 :: "'y \<Rightarrow> 'y \<Rightarrow> fl"
  r2adj :: "'y \<Rightarrow> 'y \<Rightarrow> 'e \<Rightarrow> fl"
  mse :: "'y \<Rightarrow> 'y \<Rightarrow> fl"
  corrcoef :: "'y \<Rightarrow> 'y \<Rightarrow> fl"
  gcv :: "'y \<Rightarrow> 'y \<Rightarrow> 'e \<Rightarrow> fl"

definition compute_score ::
  "('y, 'e) metric_fns \<Rightarrow> 'e option \<Rightarrow> 'y \<Rightarrow> 'y \<Rightarrow> string \<Rightarrow> string list \<times> (py_error + fl option)"
where
  "compute_score fns edf_tot y y_pred metric =
     (if metric = ''r2'' then ([], Inr (Some (r2 fns y y_pred)))
      else if metric = ''r2adj'' then
        (case edf_tot of
           None \<Rightarrow> ([], Inl AttributeError)
         | Some p \<Rightarrow> ([], Inr (Some (r2adj fns y y_pred p))))
      else if metric = ''mse'' then ([], Inr (Some (mse fns y y_pred)))
      else if metric = ''corrcoef'' then ([], Inr (Some (corrcoef fns y y_pred)))
      else if metric = ''gcv'' then
        (case edf_tot of
           None \<Rightarrow> ([], Inl AttributeError)
         | Some e \<Rightarrow> ([], Inr (Some (gcv fns y y_pred e))))
      else ([''Metric `'' @ metric @ ''` is not supported.''], Inr None))"

definition supported_metrics :: "string set" where
  "supported_metrics = {''r2'', ''r2adj'', ''mse'', ''corrcoef'', ''gcv''}"

definition raises :: "'o \<times> (py_error + 'a) \<Rightarrow> bool" where
  "raises res = (case snd res of Inl e \<Rightarrow> True | Inr v \<Rightarrow> False)"

text \<open>Concrete metric functions for the examples: every score is zero.\<close>

definition zero_metrics :: "(real list, real) metric_fns" where
  "zero_metrics =
     \<lparr>r2 = (\<lambda>y p. Fin 0), r2adj = (\<lambda>y p e. Fin 0), mse = (\<lambda>y p. Fin 0),
      corrcoef = (\<lambda>y p. Fin 0), gcv = (\<lambda>y p e. Fin 0)\<rparr>"

section \<open>The model state and the array library\<close>

text \<open>
  Arrays are values of an abstract type \<open>'m\<close>. The operations of the array library
  (\<open>jax.numpy\<close>, \<open>jax.random\<close>) and the two external builders
  (\<open>rfest.utils.build_design_matrix\<close>, \<open>rfest.splines.build_spline_matrix\<close>) that the
  registry code calls are the fields of one record, a parameter of the model.
  \<open>astype(self.dtype)\<close> does not change a value and is left out.
\<close>

record 'm numpy =
  ndim1 :: "'m \<Rightarrow> bool"                    \<comment> \<open>\<open>len(X.shape) == 1\<close>\<close>
  newaxis :: "'m \<Rightarrow> 'm"                    \<comment> \<open>\<open>X[:, jnp.newaxis]\<close>\<close>
  rows_from :: "int \<Rightarrow> 'm \<Rightarrow> 'm"            \<comment> \<open>\<open>M[k:]\<close>\<close>
  matmul :: "'m \<Rightarrow> 'm \<Rightarrow> py_error + 'm"     \<comment> \<open>\<open>A @ B\<close>, which fails on a shape mismatch\<close>
  shape1 :: "'m \<Rightarrow> nat"                    \<comment> \<open>\<open>M.shape[1]\<close>\<close>
  all_zero :: "'m \<Rightarrow> bool"                 \<comment> \<open>\<open>(P == 0).all()\<close>\<close>
  ridge_edf :: "'m \<Rightarrow> 'm \<Rightarrow> 'm"
     \<comment> \<open>\<open>(XS.T * (jnp.linalg.inv(XS.T @ XS + P) @ XS.T)).sum()\<close>\<close>
  build_design_matrix :: "'m \<Rightarrow> int \<Rightarrow> int \<Rightarrow> 'm"
  build_spline_matrix :: "int list option \<Rightarrow> int list option \<Rightarrow> string \<Rightarrow> real list \<Rightarrow> 'm \<times> 'm"
  random_normal :: "int \<Rightarrow> nat \<Rightarrow> 'm"
     \<comment> \<open>\<open>random.normal(random.PRNGKey(seed), shape=(n, 1))\<close>\<close>
  noise_like :: "int \<Rightarrow> 'm \<Rightarrow> 'm"
     \<comment> \<open>\<open>random.normal(random.PRNGKey(seed), shape=b.shape)\<close>\<close>
  scale :: "real \<Rightarrow> 'm \<Rightarrow> 'm"               \<comment> \<open>\<open>c * M\<close>\<close>
  add :: "'m \<Rightarrow> 'm \<Rightarrow> 'm"                   \<comment> \<open>\<open>A + B\<close> for arrays of one shape\<close>

text \<open>
  An effective-degrees-of-freedom entry is a feature count or a computed array; an
  intercept is a Python float or an array; an entry of a parameter set is an array or,
  under the key \<open>intercept\<close>, the dictionary of intercepts.
\<close>

datatype 'm edf_val = EdfCount nat | EdfArr 'm

datatype 'm pyval = PyFloat real | PyArr 'm

datatype 'm pentry = PArr 'm | PDict "string \<Rightarrow> 'm pyval option"

text \<open>
  The attributes of a \<open>GLM\<close> object that the modelled methods read or write. A Python
  dictionary is a map; \<open>n_features\<close>, whose iteration order matters, is an association
  list in insertion order. \<open>burn_in\<close> and \<open>num_subunits\<close> do not exist on a fresh object
  (\<open>None\<close> here is "no such attribute").
\<close>

record 'm glm =
  self_X :: "string \<rightharpoonup> (string \<rightharpoonup> 'm)"
  self_S :: "string \<rightharpoonup> 'm"
  self_P :: "string \<rightharpoonup> 'm"
  self_XS :: "string \<rightharpoonup> (string \<rightharpoonup> 'm)"
  self_y :: "string \<rightharpoonup> 'm"
  self_p :: "string \<rightharpoonup> (string \<rightharpoonup> 'm pentry)"
  self_p0 :: "(string \<rightharpoonup> 'm pentry) option"
  self_b :: "string \<rightharpoonup> (string \<rightharpoonup> 'm)"
  self_b_se :: "string \<rightharpoonup> (string \<rightharpoonup> 'm)"
  self_w :: "string \<rightharpoonup> (string \<rightharpoonup> 'm)"
  self_w_se :: "string \<rightharpoonup> (string \<rightharpoonup> 'm)"
  self_intercept :: "string \<rightharpoonup> (string \<rightharpoonup> 'm pyval)"
  self_df :: "string \<rightharpoonup> int list option"
  self_edf :: "string \<rightharpoonup> 'm edf_val"
  self_dims :: "string \<rightharpoonup> int list option"
  self_n_features :: "(string \<times> nat) list"
  self_filter_names :: "string list"
  self_shift :: "string \<rightharpoonup> int"
  self_filter_nonlinearity :: "string \<rightharpoonup> string"
  self_mle_computed :: bool
  self_lam :: "string \<rightharpoonup> real list"
  self_burn_in :: "int option"
  self_num_subunits :: "int option"
  self_init_method :: "string option"
  self_compute_ci :: "bool option"
  self_dt :: "real option"

text \<open>The object that \<open>GLM.__init__\<close> builds: every dictionary and list is empty.\<close>

definition new_glm :: "'m glm" where
  "new_glm =
     \<lparr>self_X = Map.empty, self_S = Map.empty, self_P = Map.empty, self_XS = Map.empty,
      self_y = Map.empty, self_p = Map.empty, self_p0 = None, self_b = Map.empty,
      self_b_se = Map.empty, self_w = Map.empty, self_w_se = Map.empty,
      self_intercept = Map.empty, self_df = Map.empty, self_edf = Map.empty,
      self_dims = Map.empty, self_n_features = [], self_filter_names = [],
      self_shift = Map.empty, self_filter_nonlinearity = Map.empty,
      self_mle_computed = False, self_lam = Map.empty, self_burn_in = None,
      self_num_subunits = None, self_init_method = None, self_compute_ci = None,
      self_dt = None\<rparr>"

subsection \<open>Dictionary and list access\<close>

definition lookup :: "('k \<rightharpoonup> 'v) \<Rightarrow> 'k \<Rightarrow> py_error + 'v" where
  \<comment> \<open>\<open>d[k]\<close>\<close>
  "lookup d k = (case d k of None \<Rightarrow> Inl KeyError | Some v \<Rightarrow> Inr v)"

definition lookup2 :: "('j \<rightharpoonup> ('k \<rightharpoonup> 'v)) \<Rightarrow> 'j \<Rightarrow> 'k \<Rightarrow> py_error + 'v" where
  \<comment> \<open>\<open>d[j][k]\<close>\<close>
  "lookup2 d j k = (case d j of None \<Rightarrow> Inl KeyError | Some e \<Rightarrow> lookup e k)"

definition store2 :: "('j \<rightharpoonup> ('k \<rightharpoonup> 'v)) \<Rightarrow> 'j \<Rightarrow> 'k \<Rightarrow> 'v \<Rightarrow> py_error + ('j \<rightharpoonup> ('k \<rightharpoonup> 'v))" where
  \<comment> \<open>\<open>d[j][k] = v\<close>\<close>
  "store2 d j k v = (case d j of None \<Rightarrow> Inl KeyError | Some e \<Rightarrow> Inr (d(j \<mapsto> e(k \<mapsto> v))))"

definition ensure :: "('j \<rightharpoonup> ('k \<rightharpoonup> 'v)) \<Rightarrow> 'j \<Rightarrow> ('j \<rightharpoonup> ('k \<rightharpoonup> 'v))" where
  \<comment> \<open>\<open>if j not in d: d.update({j: {}})\<close>\<close>
  "ensure d j = (case d j of None \<Rightarrow> d(j \<mapsto> Map.empty) | Some e \<Rightarrow> d)"

fun dict_set :: "('k \<times> 'v) list \<Rightarrow> 'k \<Rightarrow> 'v \<Rightarrow> ('k \<times> 'v) list" where
  \<comment> \<open>\<open>d[k] = v\<close> on an ordered dictionary: an existing key keeps its place\<close>
  "dict_set [] k v = [(k, v)]"
| "dict_set ((k', v') # kvs) k v = (if k' = k then (k, v) # kvs else (k', v') # dict_set kvs k v)"

definition first_dim :: "int list option \<Rightarrow> py_error + int" where
  \<comment> \<open>\<open>dims[0]\<close>\<close>
  "first_dim dims =
     (case dims of None \<Rightarrow> Inl TypeError | Some [] \<Rightarrow> Inl IndexError | Some (d # ds) \<Rightarrow> Inr d)"

section \<open>The filter registry (\<open>GLM.add_design_matrix\<close>)\<close>

text \<open>
  The arguments of \<open>add_design_matrix\<close>. \<open>dims\<close> and \<open>df\<close> may be \<open>None\<close>, an \<open>int\<close> or
  a list; \<open>lam\<close> is a number or a list.
\<close>

datatype int_or_list = NoneArg | IntArg int | ListArg "int list"

datatype lam_arg = LamFloat real | LamList "real list"

record 'm adm_args =
  arg_X :: 'm
  arg_dims :: int_or_list
  arg_df :: int_or_list
  arg_smooth :: "string option"
  arg_lag :: bool
  arg_lam :: lam_arg
  arg_filter_nonlinearity :: string
  arg_kind :: string
  arg_name :: string
  arg_shift :: int
  arg_burn_in :: "int option"

definition adm_defaults :: "'m \<Rightarrow> 'm adm_args" where
  \<comment> \<open>the defaults of the signature\<close>
  "adm_defaults x =
     \<lparr>arg_X = x, arg_dims = NoneArg, arg_df = NoneArg, arg_smooth = None, arg_lag = True,
      arg_lam = LamFloat 0, arg_filter_nonlinearity = ''none'', arg_kind = ''train'',
      arg_name = ''stimulus'', arg_shift = 0, arg_burn_in = None\<rparr>"

definition as_list :: "int_or_list \<Rightarrow> int list option" where
  \<comment> \<open>\<open>v if type(v) is not int else [v, ]\<close>\<close>
  "as_list v = (case v of NoneArg \<Rightarrow> None | IntArg n \<Rightarrow> Some [n] | ListArg ns \<Rightarrow> Some ns)"

text \<open>
  Lines 201--213: create the split, and either register the filter (train) or read the
  registered \<open>dims\<close> and \<open>shift\<close>. The result carries the \<open>dims\<close> and \<open>shift\<close> in effect.
\<close>

definition adm_register ::
  "'m adm_args \<Rightarrow> 'm glm \<Rightarrow> py_error + ('m glm \<times> int list option \<times> int)"
where
  "adm_register a st =
     (let st1 = st\<lparr>self_X := ensure (self_X st) (arg_kind a)\<rparr> in
      if arg_kind a = ''train'' then
        Inr (st1\<lparr>self_filter_nonlinearity :=
                   (self_filter_nonlinearity st1)(arg_name a \<mapsto> arg_filter_nonlinearity a),
                 self_filter_names := self_filter_names st1 @ [arg_name a],
                 self_dims := (self_dims st1)(arg_name a \<mapsto> as_list (arg_dims a)),
                 self_shift := (self_shift st1)(arg_name a \<mapsto> arg_shift a)\<rparr>,
             as_list (arg_dims a), arg_shift a)
      else
        (case lookup (self_dims st1) (arg_name a) of
           Inl e \<Rightarrow> Inl e
         | Inr dims \<Rightarrow>
             (case lookup (self_shift st1) (arg_name a) of
                Inl e \<Rightarrow> Inl e
              | Inr shift \<Rightarrow> Inr (st1, dims, shift))))"

text \<open>Lines 215--217: the burn-in is set only if the attribute does not exist yet.\<close>

definition adm_burn_in :: "'m adm_args \<Rightarrow> int list option \<Rightarrow> 'm glm \<Rightarrow> py_error + 'm glm" where
  "adm_burn_in a dims st =
     (case self_burn_in st of
        Some b \<Rightarrow> Inr st
      | None \<Rightarrow>
          (case arg_burn_in a of
             Some b \<Rightarrow> Inr (st\<lparr>self_burn_in := Some b\<rparr>)
           | None \<Rightarrow>
               (case first_dim dims of
                  Inl e \<Rightarrow> Inl e
                | Inr d \<Rightarrow> Inr (st\<lparr>self_burn_in := Some (d - 1)\<rparr>))))"

text \<open>
  Lines 219--225: a lagged filter gets the built design matrix without its first
  \<open>burn_in\<close> rows; an unlagged one sets the shared burn-in to zero and stores the input.
\<close>

definition adm_design ::
  "'m numpy \<Rightarrow> 'm adm_args \<Rightarrow> 'm \<Rightarrow> int list option \<Rightarrow> int \<Rightarrow> 'm glm \<Rightarrow> py_error + 'm glm"
where
  "adm_design np a x dims shift st =
     (if arg_lag a then
        (case first_dim dims of
           Inl e \<Rightarrow> Inl e
         | Inr d \<Rightarrow>
             (case self_burn_in st of
                None \<Rightarrow> Inl AttributeError
              | Some b \<Rightarrow>
                  (case store2 (self_X st) (arg_kind a) (arg_name a)
                          (rows_from np b (build_design_matrix np x d shift)) of
                     Inl e \<Rightarrow> Inl e
                   | Inr X' \<Rightarrow> Inr (st\<lparr>self_X := X'\<rparr>))))
      else
        (case store2 (self_X st) (arg_kind a) (arg_name a) x of
           Inl e \<Rightarrow> Inl e
         | Inr X' \<Rightarrow> Inr (st\<lparr>self_burn_in := Some 0, self_X := X'\<rparr>)))"

text \<open>Lines 227--248: no smoothing requested.\<close>

definition adm_project :: "'m numpy \<Rightarrow> 'm adm_args \<Rightarrow> 'm \<Rightarrow> 'm glm \<Rightarrow> py_error + 'm glm" where
  \<comment> \<open>\<open>self.XS[kind][name] = self.X[kind][name] @ S\<close>, after creating \<open>self.XS[kind]\<close>\<close>
  "adm_project np a s st =
     (let XS1 = ensure (self_XS st) (arg_kind a) in
      case lookup2 (self_X st) (arg_kind a) (arg_name a) of
        Inl e \<Rightarrow> Inl e
      | Inr x \<Rightarrow>
          (case matmul np x s of
             Inl e \<Rightarrow> Inl e
           | Inr xs \<Rightarrow>
               (case store2 XS1 (arg_kind a) (arg_name a) xs of
                  Inl e \<Rightarrow> Inl e
                | Inr XS2 \<Rightarrow> Inr (st\<lparr>self_XS := XS2\<rparr>))))"

definition adm_raw :: "'m numpy \<Rightarrow> 'm adm_args \<Rightarrow> 'm glm \<Rightarrow> py_error + 'm glm" where
  "adm_raw np a st =
     (case self_S st (arg_name a) of
        Some s \<Rightarrow> adm_project np a s st
      | None \<Rightarrow>
          if arg_kind a = ''test'' then
            (case (if (case self_num_subunits st of None \<Rightarrow> False | Some n \<Rightarrow> n > 1)
                   then lookup (self_S st) ''stimulus_s0''
                   else lookup (self_S st) (arg_name a)) of
               Inl e \<Rightarrow> Inl e
             | Inr s \<Rightarrow> adm_project np a s st)
          else if arg_kind a = ''train'' then
            (case lookup2 (self_X st) ''train'' (arg_name a) of
               Inl e \<Rightarrow> Inl e
             | Inr x \<Rightarrow>
                 Inr (st\<lparr>self_n_features := dict_set (self_n_features st) (arg_name a) (shape1 np x),
                         self_edf := (self_edf st)(arg_name a \<mapsto> EdfCount (shape1 np x))\<rparr>))
          else Inr st)"

text \<open>Lines 250--269: a spline basis is requested.\<close>

definition adm_spline ::
  "'m numpy \<Rightarrow> 'm adm_args \<Rightarrow> string \<Rightarrow> int list option \<Rightarrow> 'm glm \<Rightarrow> py_error + 'm glm"
where
  "adm_spline np a smooth dims st =
     (let XS1 = ensure (self_XS st) (arg_kind a);
          df = as_list (arg_df a) in
      case (case arg_lam a of
              LamList ls \<Rightarrow> Inr ls
            | LamFloat l \<Rightarrow>
                (case df of None \<Rightarrow> Inl TypeError | Some ds \<Rightarrow> Inr (replicate (length ds) l))) of
        Inl e \<Rightarrow> Inl e
      | Inr lam \<Rightarrow>
          (let (s, p) = build_spline_matrix np dims df smooth lam in
           case lookup2 (self_X st) (arg_kind a) (arg_name a) of
             Inl e \<Rightarrow> Inl e
           | Inr x \<Rightarrow>
               (case matmul np x s of
                  Inl e \<Rightarrow> Inl e
                | Inr xs \<Rightarrow>
                    (case store2 XS1 (arg_kind a) (arg_name a) xs of
                       Inl e \<Rightarrow> Inl e
                     | Inr XS2 \<Rightarrow>
                         (let st1 = st\<lparr>self_XS := XS2,
                                       self_df := (self_df st)(arg_name a \<mapsto> df),
                                       self_lam := (self_lam st)(arg_name a \<mapsto> lam),
                                       self_S := (self_S st)(arg_name a \<mapsto> s),
                                       self_P := (self_P st)(arg_name a \<mapsto> p)\<rparr> in
                          if arg_kind a = ''train'' then
                            Inr (st1\<lparr>self_n_features :=
                                       dict_set (self_n_features st1) (arg_name a) (shape1 np xs),
                                     self_edf := (self_edf st1)(arg_name a \<mapsto>
                                       (if all_zero np p then EdfCount (shape1 np xs)
                                        else EdfArr (ridge_edf np xs p)))\<rparr>)
                          else Inr st1)))))"

definition add_design_matrix :: "'m numpy \<Rightarrow> 'm adm_args \<Rightarrow> 'm glm \<Rightarrow> py_error + 'm glm" where
  "add_design_matrix np a st =
     (let x = (if ndim1 np (arg_X a) then newaxis np (arg_X a) else arg_X a) in
      case adm_register a st of
        Inl e \<Rightarrow> Inl e
      | Inr (st1, dims, shift) \<Rightarrow>
          (case adm_burn_in a dims st1 of
             Inl e \<Rightarrow> Inl e
           | Inr st2 \<Rightarrow>
               (case adm_design np a x dims shift st2 of
                  Inl e \<Rightarrow> Inl e
                | Inr st3 \<Rightarrow>
                    (case arg_smooth a of
                       None \<Rightarrow> adm_raw np a st3
                     | Some smooth \<Rightarrow> adm_spline np a smooth dims st3))))"

text \<open>A sequence of registrations, stopping at the first exception.\<close>

fun add_design_matrices :: "'m numpy \<Rightarrow> 'm adm_args list \<Rightarrow> 'm glm \<Rightarrow> py_error + 'm glm" where
  "add_design_matrices np [] st = Inr st"
| "add_design_matrices np (a # as) st =
     (case add_design_matrix np a st of
        Inl e \<Rightarrow> Inl e
      | Inr st' \<Rightarrow> add_design_matrices np as st')"

text \<open>
  An array library for the examples: an array is a list of rows; the design-matrix
  builder returns its input, the spline builder an identity-like pair, and products
  return their left factor.
\<close>

definition list_np :: "(real list list) numpy" where
  "list_np =
     \<lparr>ndim1 = (\<lambda>m. False), newaxis = (\<lambda>m. m), rows_from = (\<lambda>k m. drop (nat k) m),
      matmul = (\<lambda>a b. Inr a), shape1 = (\<lambda>m. case m of [] \<Rightarrow> 0 | r # rs \<Rightarrow> length r),
      all_zero = (\<lambda>m. list_all (list_all (\<lambda>x. x = 0)) m),
      ridge_edf = (\<lambda>xs p. [[0]]),
      build_design_matrix = (\<lambda>x d s. x),
      build_spline_matrix = (\<lambda>dims df smooth lam. ([[1]], [[0]])),
      random_normal = (\<lambda>seed n. replicate n [0]),
      noise_like = (\<lambda>seed b. map (map (\<lambda>x. 0)) b),
      scale = (\<lambda>c m. map (map (\<lambda>x. c * x)) m),
      add = (\<lambda>a b. map2 (map2 (+)) a b)\<rparr>"

definition stim3 :: "(real list list) adm_args" where
  \<comment> \<open>\<open>add_design_matrix(X, dims=3, name='stimulus')\<close>\<close>
  "stim3 = (adm_defaults [[1], [2], [3], [4]])\<lparr>arg_dims := IntArg 3\<rparr>"

definition hist_nolag :: "(real list list) adm_args" where
  \<comment> \<open>\<open>add_design_matrix(X, dims=1, lag=False, name='history')\<close>\<close>
  "hist_nolag = (adm_defaults [[1], [2], [3], [4]])
     \<lparr>arg_dims := IntArg 1, arg_lag := False, arg_name := ''history''\<rparr>"

definition stim3_dev :: "(real list list) adm_args" where
  \<comment> \<open>\<open>add_design_matrix(X, name='stimulus', kind='dev')\<close>\<close>
  "stim3_dev = (adm_defaults [[5], [6], [7], [8]])\<lparr>arg_kind := ''dev''\<rparr>"

text \<open>
  The rule for the shared burn-in, in the words of the registry's description: an
  unlagged registration forces it to zero; a lagged one keeps an existing value and
  otherwise takes the \<open>burn_in\<close> argument or, by default, \<open>dims[0] - 1\<close> of the
  \<open>dims\<close> in effect (the argument for the train split, the registered ones otherwise).
\<close>

definition dims_in_effect :: "'m adm_args \<Rightarrow> 'm glm \<Rightarrow> int list option" where
  "dims_in_effect a st =
     (if arg_kind a = ''train'' then as_list (arg_dims a)
      else (case self_dims st (arg_name a) of None \<Rightarrow> None | Some d \<Rightarrow> d))"

definition burn_in_after :: "'m adm_args \<Rightarrow> 'm glm \<Rightarrow> int option" where
  "burn_in_after a st =
     (if \<not> arg_lag a then Some 0
      else (case self_burn_in st of
              Some b \<Rightarrow> Some b
            | None \<Rightarrow>
                (case arg_burn_in a of
                   Some b \<Rightarrow> Some b
                 | None \<Rightarrow>
                     (case first_dim (dims_in_effect a st) of
                        Inl e \<Rightarrow> None
                      | Inr d \<Rightarrow> Some (d - 1)))))"

definition burn_in_of :: "py_error + 'm glm \<Rightarrow> py_error + int option" where
  \<comment> \<open>the exception, or \<open>self.burn_in\<close> after the calls\<close>
  "burn_in_of res = (case res of Inl e \<Rightarrow> Inl e | Inr st \<Rightarrow> Inr (self_burn_in st))"

section \<open>The maximum-likelihood initialiser (\<open>GLM.compute_mle\<close>, lines 405--444)\<close>

text \<open>
  Here arrays are concrete: a one-dimensional array is a list of reals, a
  two-dimensional one the list of its rows. The least-squares solver
  \<open>jnp.linalg.lstsq\<close> is external; the parameter \<open>lstsq\<close> stands for
  \<open>lambda X, y: jnp.linalg.lstsq(X.T @ X, X.T @ y, rcond=None)[0]\<close>.
\<close>

type_synonym vec = "real list"

type_synonym mat = "real list list"

definition py_slice_from :: "int \<Rightarrow> 'a list \<Rightarrow> 'a list" where
  \<comment> \<open>\<open>xs[k:]\<close>; a negative \<open>k\<close> counts from the end\<close>
  "py_slice_from k xs = (if k < 0 then drop (nat (int (length xs) + k)) xs else drop (nat k) xs)"

definition py_slice :: "nat \<Rightarrow> nat \<Rightarrow> 'a list \<Rightarrow> 'a list" where
  \<comment> \<open>\<open>xs[a:b]\<close> for non-negative bounds\<close>
  "py_slice a b xs = take (b - a) (drop a xs)"

definition hstack2 :: "mat \<Rightarrow> mat \<Rightarrow> py_error + mat" where
  "hstack2 A B = (if length A = length B then Inr (map2 (@) A B) else Inl ShapeError)"

fun hstack :: "mat list \<Rightarrow> py_error + mat" where
  \<comment> \<open>\<open>jnp.hstack\<close> of two-dimensional arrays; an empty sequence is rejected\<close>
  "hstack [] = Inl ValueError"
| "hstack [A] = Inr A"
| "hstack (A # As) = (case hstack As of Inl e \<Rightarrow> Inl e | Inr B \<Rightarrow> hstack2 A B)"

definition ones_column :: "nat \<Rightarrow> mat" where
  \<comment> \<open>\<open>jnp.ones(n)[:, jnp.newaxis]\<close>\<close>
  "ones_column n = replicate n [1]"

fun collect :: "('a \<Rightarrow> py_error + 'b) \<Rightarrow> 'a list \<Rightarrow> py_error + 'b list" where
  \<comment> \<open>a list comprehension whose element expression can raise\<close>
  "collect f [] = Inr []"
| "collect f (x # xs) =
     (case f x of
        Inl e \<Rightarrow> Inl e
      | Inr y \<Rightarrow> (case collect f xs of Inl e \<Rightarrow> Inl e | Inr ys \<Rightarrow> Inr (y # ys)))"

definition dot :: "vec \<Rightarrow> vec \<Rightarrow> real" where
  "dot u v = sum_list (map2 (*) u v)"

definition mat_vec :: "mat \<Rightarrow> vec \<Rightarrow> py_error + vec" where
  \<comment> \<open>\<open>A @ v\<close> for a column \<open>v\<close>\<close>
  "mat_vec A v = (if list_all (\<lambda>r. length r = length v) A then Inr (map (\<lambda>r. dot r v) A)
                  else Inl ShapeError)"

datatype y_arg = YArr vec | YDict "string \<Rightarrow> vec option"

text \<open>Lines 405--413: the training response.\<close>

definition mle_y_train :: "y_arg \<Rightarrow> py_error + vec" where
  "mle_y_train y =
     (case y of
        YArr v \<Rightarrow> Inr v
      | YDict d \<Rightarrow>
          (case lookup d ''train'' of
             Inl e \<Rightarrow> Inl e
           | Inr v \<Rightarrow> if length v = 0 then Inl ValueError else Inr v))"

text \<open>
  Lines 415--419: per filter, in the order of \<open>filter_names\<close>, a column of ones and
  the projected (if the filter has a basis) or raw design matrix; then one more column
  of ones in front.
\<close>

definition mle_filter_block :: "mat glm \<Rightarrow> nat \<Rightarrow> string \<Rightarrow> py_error + mat" where
  "mle_filter_block st n_samples name =
     (case (if name \<in> dom (self_S st) then lookup2 (self_XS st) ''train'' name
            else lookup2 (self_X st) ''train'' name) of
        Inl e \<Rightarrow> Inl e
      | Inr M \<Rightarrow> hstack [ones_column n_samples, M])"

definition mle_design :: "mat glm \<Rightarrow> vec \<Rightarrow> py_error + mat" where
  "mle_design st y_train =
     (case self_burn_in st of
        None \<Rightarrow> Inl AttributeError
      | Some burn_in \<Rightarrow>
          (let n_samples = int (length y_train) - burn_in in
           if n_samples < 0 then Inl ValueError
           else
             (case collect (mle_filter_block st (nat n_samples)) (self_filter_names st) of
                Inl e \<Rightarrow> Inl e
              | Inr blocks \<Rightarrow>
                  (case hstack blocks of
                     Inl e \<Rightarrow> Inl e
                   | Inr M \<Rightarrow> hstack [ones_column (nat n_samples), M]))))"

text \<open>
  Lines 430--433: the slice bounds, cumulative sums of \<open>n_features[name] + 1\<close> over the
  dictionary \<open>n_features\<close>, starting at 0.
\<close>

fun cumsum_from :: "nat \<Rightarrow> nat list \<Rightarrow> nat list" where
  "cumsum_from acc [] = []"
| "cumsum_from acc (x # xs) = (acc + x) # cumsum_from (acc + x) xs"

definition mle_idx :: "(string \<times> nat) list \<Rightarrow> (nat \<times> nat) list" where
  "mle_idx n_features =
     (let l = cumsum_from 0 (0 # map (\<lambda>(name, n). n + 1) n_features)
      in map (\<lambda>i. (l ! i, l ! (i + 1))) [0 ..< length l - 1])"

record mle_params =
  intercept_mle :: "string \<rightharpoonup> real"
  b_mle :: "string \<rightharpoonup> vec"
  w_mle :: "string \<rightharpoonup> vec"

text \<open>Lines 435--442: one turn of the slicing loop, for the \<open>i\<close>-th filter name.\<close>

definition mle_slice_filter ::
  "mat glm \<Rightarrow> vec \<Rightarrow> (nat \<times> nat) list \<Rightarrow> nat \<times> string \<Rightarrow> mle_params \<Rightarrow> py_error + mle_params"
where
  "mle_slice_filter st mle idx ix res =
     (case ix of (i, name) \<Rightarrow>
        if length idx \<le> i then Inl IndexError
        else
          (let mle_params = py_slice (fst (idx ! i)) (snd (idx ! i)) mle in
           case mle_params of
             [] \<Rightarrow> Inl IndexError
           | c # cs \<Rightarrow>
               (case self_S st name of
                  Some S \<Rightarrow>
                    (case mat_vec S cs of
                       Inl e \<Rightarrow> Inl e
                     | Inr w \<Rightarrow>
                         Inr (res\<lparr>intercept_mle := (intercept_mle res)(name \<mapsto> c),
                                  b_mle := (b_mle res)(name \<mapsto> cs),
                                  w_mle := (w_mle res)(name \<mapsto> w)\<rparr>))
                | None \<Rightarrow>
                    Inr (res\<lparr>intercept_mle := (intercept_mle res)(name \<mapsto> c),
                             w_mle := (w_mle res)(name \<mapsto> cs)\<rparr>))))"

fun mle_slice_all ::
  "mat glm \<Rightarrow> vec \<Rightarrow> (nat \<times> nat) list \<Rightarrow> (nat \<times> string) list \<Rightarrow> mle_params \<Rightarrow> py_error + mle_params"
where
  "mle_slice_all st mle idx [] res = Inr res"
| "mle_slice_all st mle idx (ix # ixs) res =
     (case mle_slice_filter st mle idx ix res of
        Inl e \<Rightarrow> Inl e
      | Inr res' \<Rightarrow> mle_slice_all st mle idx ixs res')"

text \<open>Lines 405--444 together; the result is \<open>intercept['mle']\<close>, \<open>b['mle']\<close>, \<open>w['mle']\<close>.\<close>

definition compute_mle_params :: "(mat \<Rightarrow> vec \<Rightarrow> vec) \<Rightarrow> mat glm \<Rightarrow> y_arg \<Rightarrow> py_error + mle_params" where
  "compute_mle_params lstsq st y =
     (case mle_y_train y of
        Inl e \<Rightarrow> Inl e
      | Inr y_train \<Rightarrow>
          (case mle_design st y_train of
             Inl e \<Rightarrow> Inl e
           | Inr X \<Rightarrow>
               (case self_burn_in st of
                  None \<Rightarrow> Inl AttributeError
                | Some burn_in \<Rightarrow>
                    (let y' = py_slice_from burn_in y_train in
                     if length X \<noteq> length y' then Inl ShapeError
                     else
                       (let mle = lstsq X y' in
                        case mle_slice_all st mle (mle_idx (self_n_features st))
                               (enumerate 0 (self_filter_names st))
                               \<lparr>intercept_mle = Map.empty, b_mle = Map.empty, w_mle = Map.empty\<rparr> of
                          Inl e \<Rightarrow> Inl e
                        | Inr res \<Rightarrow>
                            (case mle of
                               [] \<Rightarrow> Inl IndexError
                             | g # gs \<Rightarrow>
                                 Inr (res\<lparr>intercept_mle :=
                                            (intercept_mle res)(''global'' \<mapsto> g)\<rparr>)))))))"

text \<open>
  The layout of the flat solution. The columns of the design matrix are: the global intercept,
  then per filter its intercept column and its feature columns. The coefficient of a
  column is the component of the flat solution at the column's index, so filter \<open>k\<close>'s
  block starts at \<open>block_start\<close> and its weights are the \<open>n_features\<close> components
  after the start.
\<close>

definition block_start :: "(string \<times> nat) list \<Rightarrow> nat \<Rightarrow> nat" where
  "block_start n_features k = 1 + sum_list (map (\<lambda>(name, n). n + 1) (take k n_features))"

definition block_intercept :: "(string \<times> nat) list \<Rightarrow> vec \<Rightarrow> nat \<Rightarrow> real" where
  "block_intercept n_features mle k = mle ! block_start n_features k"

definition block_weights :: "(string \<times> nat) list \<Rightarrow> vec \<Rightarrow> nat \<Rightarrow> vec" where
  "block_weights n_features mle k =
     py_slice (block_start n_features k + 1)
              (block_start n_features k + 1 + snd (n_features ! k)) mle"

text \<open>
  The normal equations \<open>X\<^sup>T X v = X\<^sup>T y\<close> that the solver is applied to, column by
  column, and the squared norm that a rank-deficient solve minimises.
\<close>

definition column :: "mat \<Rightarrow> nat \<Rightarrow> vec" where
  "column X j = map (\<lambda>r. r ! j) X"

definition solves_normal_equations :: "mat \<Rightarrow> vec \<Rightarrow> vec \<Rightarrow> bool" where
  "solves_normal_equations X y v \<longleftrightarrow>
     map (\<lambda>j. dot (column X j) (map (\<lambda>r. dot r v) X)) [0 ..< length v]
       = map (\<lambda>j. dot (column X j) y) [0 ..< length v]"

definition norm2 :: "vec \<Rightarrow> real" where
  "norm2 v = dot v v"

text \<open>
  The example: one unlagged, unsmoothed filter \<open>stimulus\<close> with a single feature, two
  samples \<open>x = (0, 1)\<close>, and the response \<open>y = (0, 1)\<close>, so that \<open>y = x\<close> exactly.
\<close>

definition one_feature :: "mat adm_args" where
  \<comment> \<open>\<open>add_design_matrix(jnp.array([[0.], [1.]]), dims=1, lag=False)\<close>\<close>
  "one_feature = (adm_defaults [[0], [1]])\<lparr>arg_dims := IntArg 1, arg_lag := False\<rparr>"

definition one_feature_model :: "mat glm" where
  "one_feature_model =
     (case add_design_matrix list_np one_feature new_glm of Inr st \<Rightarrow> st | Inl e \<Rightarrow> new_glm)"

definition one_feature_lstsq :: "mat \<Rightarrow> vec \<Rightarrow> vec" where
  \<comment> \<open>the minimum-norm least-squares solution for the example's design matrix\<close>
  "one_feature_lstsq X y = [0, 0, 1]"

section \<open>The cost function (\<open>GLM.cost\<close>)\<close>

text \<open>
  Responses and predictions are one-dimensional arrays of floating-point values.
  An elementwise binary operation broadcasts an array of length one; the product \<open>@\<close>
  of two one-dimensional arrays needs equal lengths.
\<close>

definition broadcast2 :: "(fl \<Rightarrow> fl \<Rightarrow> fl) \<Rightarrow> fl list \<Rightarrow> fl list \<Rightarrow> py_error + fl list" where
  "broadcast2 f xs ys =
     (if length xs = length ys then Inr (map2 f xs ys)
      else if length xs = 1 then Inr (map (f (hd xs)) ys)
      else if length ys = 1 then Inr (map (\<lambda>x. f x (hd ys)) xs)
      else Inl ShapeError)"

definition fl_dot :: "fl list \<Rightarrow> fl list \<Rightarrow> py_error + fl" where
  "fl_dot xs ys =
     (if length xs = length ys then Inr (fl_sum (map2 fl_mul xs ys)) else Inl ShapeError)"

text \<open>
  What \<open>cost\<close> reads from the object: the distribution, the responses per split, the
  forward pass (a parameter: the prediction for a parameter set and a split, or the
  exception it raises), whether the attribute \<open>beta\<close> exists, and the elastic-net term
  \<open>self.beta * ((1 - self.alpha) * l2 + self.alpha * l1)\<close> of a parameter set.
\<close>

record 'p cost_env =
  distr :: string
  responses :: "string \<rightharpoonup> fl list"
  forwardpass :: "'p \<Rightarrow> string \<Rightarrow> py_error + fl list"
  has_beta :: bool
  elastic_net :: "'p \<Rightarrow> py_error + fl"

text \<open>Lines 535--547: the negative log-likelihood of a response and a prediction.\<close>

definition loss :: "string \<Rightarrow> fl list \<Rightarrow> fl list \<Rightarrow> py_error + fl" where
  "loss d y r =
     (if d = ''gaussian'' then
        (case broadcast2 fl_sub y r of
           Inl e \<Rightarrow> Inl e
         | Inr diff \<Rightarrow> Inr (fl_mul (Fin (1 / 2)) (fl_sum (map (\<lambda>x. fl_mul x x) diff))))
      else if d = ''poisson'' then
        (let r1 = map (\<lambda>x. if x \<noteq> PInf then x else Fin 0) r;
             r2 = map (\<lambda>x. fl_maximum x (Fin (1 / 10 ^ 20))) r1
         in case fl_dot (map fl_neg (map fl_log r2)) y of
              Inl e \<Rightarrow> Inl e
            | Inr term0 \<Rightarrow> Inr (fl_add term0 (fl_sum r2)))
      else Inl (NotImplementedError d))"

definition cost :: "'p cost_env \<Rightarrow> 'p \<Rightarrow> string \<Rightarrow> fl list option \<Rightarrow> bool \<Rightarrow> py_error + fl" where
  "cost env p kind precomputed penalize =
     (case lookup (responses env) kind of
        Inl e \<Rightarrow> Inl e
      | Inr y \<Rightarrow>
          (case (case precomputed of None \<Rightarrow> forwardpass env p kind | Some r \<Rightarrow> Inr r) of
             Inl e \<Rightarrow> Inl e
           | Inr r \<Rightarrow>
               (case loss (distr env) y r of
                  Inl e \<Rightarrow> Inl e
                | Inr l \<Rightarrow>
                    if penalize then
                      (if has_beta env then
                         (if kind = ''train'' then
                            (case elastic_net env p of
                               Inl e \<Rightarrow> Inl e
                             | Inr pen \<Rightarrow> Inr (fl_add l pen))
                          else Inr l)
                       else Inl AttributeError)
                    else Inr l)))"

text \<open>
  The predicted response that \<open>cost\<close> uses: the precomputed one if given, else the
  forward pass.
\<close>

definition predicted :: "'p cost_env \<Rightarrow> 'p \<Rightarrow> string \<Rightarrow> fl list option \<Rightarrow> py_error + fl list" where
  "predicted env p kind precomputed =
     (case precomputed of None \<Rightarrow> forwardpass env p kind | Some r \<Rightarrow> Inr r)"

text \<open>
  The two formulas in the words of the description. Gaussian: half the sum of the
  squared residuals. Poisson: with \<open>r'\<close> the prediction whose infinite entries (of either
  sign) are replaced by 0 and which is then floored at \<open>1e-20\<close>, the value
  \<open>-log(r') \<cdot> y + \<Sum>r'\<close>.
\<close>

definition gaussian_nll :: "fl list \<Rightarrow> fl list \<Rightarrow> fl" where
  "gaussian_nll y r =
     fl_mul (Fin (1 / 2)) (fl_sum (map (\<lambda>(a, b). fl_mul (fl_sub a b) (fl_sub a b)) (zip y r)))"

definition floored :: "fl list \<Rightarrow> fl list" where
  "floored r =
     map (\<lambda>x. fl_maximum (if x = PInf \<or> x = NInf then Fin 0 else x) (Fin (1 / 10 ^ 20))) r"

definition poisson_nll :: "fl list \<Rightarrow> fl list \<Rightarrow> fl" where
  "poisson_nll y r =
     fl_add (fl_sum (map (\<lambda>(a, b). fl_mul (fl_neg (fl_log a)) b) (zip (floored r) y)))
            (fl_sum (floored r))"

text \<open>An example: a Poisson model with a precomputed prediction that has an infinite entry.\<close>

definition poisson_env :: "unit cost_env" where
  "poisson_env =
     \<lparr>distr = ''poisson'', responses = [''dev'' \<mapsto> [Fin 2, Fin 3, Fin 0]],
      forwardpass = (\<lambda>p kind. Inl KeyError), has_beta = False,
      elastic_net = (\<lambda>p. Inl AttributeError)\<rparr>"

section \<open>Initialisation and subunit expansion (\<open>GLM.initialize\<close>)\<close>

text \<open>
  A method body is a sequence of statements; a statement maps the object to the
  exception it raises or to the object after it. \<open>seq\<close> runs the statements in order
  and stops at the first exception; \<open>when\<close> is an \<open>if\<close> without \<open>else\<close>.
\<close>

fun seq :: "('s \<Rightarrow> py_error + 's) list \<Rightarrow> 's \<Rightarrow> py_error + 's" where
  "seq [] st = Inr st"
| "seq (stmt # stmts) st = (case stmt st of Inl e \<Rightarrow> Inl e | Inr st' \<Rightarrow> seq stmts st')"

definition when' :: "('s \<Rightarrow> bool) \<Rightarrow> ('s \<Rightarrow> py_error + 's) \<Rightarrow> 's \<Rightarrow> py_error + 's" where
  "when' c stmt st = (if c st then stmt st else Inr st)"

text \<open>
  The statements of the renaming block, by their shape. The first two arguments are the
  attribute's selector and update function.
\<close>

definition copy_entry ::
  "('s \<Rightarrow> ('k \<rightharpoonup> 'v)) \<Rightarrow> ((('k \<rightharpoonup> 'v) \<Rightarrow> ('k \<rightharpoonup> 'v)) \<Rightarrow> 's \<Rightarrow> 's) \<Rightarrow> 'k \<Rightarrow> 'k \<Rightarrow> 's \<Rightarrow> py_error + 's"
where
  \<comment> \<open>\<open>self.d[to] = self.d[from]\<close>\<close>
  "copy_entry get upd from to st =
     (case get st from of
        None \<Rightarrow> Inl KeyError
      | Some v \<Rightarrow> Inr (upd (\<lambda>d. d(to \<mapsto> v)) st))"

definition copy_entry2 ::
  "('s \<Rightarrow> ('j \<rightharpoonup> ('k \<rightharpoonup> 'v))) \<Rightarrow> ((('j \<rightharpoonup> ('k \<rightharpoonup> 'v)) \<Rightarrow> ('j \<rightharpoonup> ('k \<rightharpoonup> 'v))) \<Rightarrow> 's \<Rightarrow> 's) \<Rightarrow>
   'j \<Rightarrow> 'k \<Rightarrow> 'k \<Rightarrow> 's \<Rightarrow> py_error + 's"
where
  \<comment> \<open>\<open>self.d[j][to] = self.d[j][from]\<close>\<close>
  "copy_entry2 get upd j from to st =
     (case get st j of
        None \<Rightarrow> Inl KeyError
      | Some e \<Rightarrow>
          (case e from of
             None \<Rightarrow> Inl KeyError
           | Some v \<Rightarrow> Inr (upd (\<lambda>d. d(j \<mapsto> e(to \<mapsto> v))) st)))"

definition pop_entry ::
  "('s \<Rightarrow> ('k \<rightharpoonup> 'v)) \<Rightarrow> ((('k \<rightharpoonup> 'v) \<Rightarrow> ('k \<rightharpoonup> 'v)) \<Rightarrow> 's \<Rightarrow> 's) \<Rightarrow> 'k \<Rightarrow> 's \<Rightarrow> py_error + 's"
where
  \<comment> \<open>\<open>self.d.pop(k)\<close>\<close>
  "pop_entry get upd k st =
     (case get st k of
        None \<Rightarrow> Inl KeyError
      | Some v \<Rightarrow> Inr (upd (\<lambda>d. d(k := None)) st))"

definition pop_entry2 ::
  "('s \<Rightarrow> ('j \<rightharpoonup> ('k \<rightharpoonup> 'v))) \<Rightarrow> ((('j \<rightharpoonup> ('k \<rightharpoonup> 'v)) \<Rightarrow> ('j \<rightharpoonup> ('k \<rightharpoonup> 'v))) \<Rightarrow> 's \<Rightarrow> 's) \<Rightarrow>
   'j \<Rightarrow> 'k \<Rightarrow> 's \<Rightarrow> py_error + 's"
where
  \<comment> \<open>\<open>self.d[j].pop(k)\<close>\<close>
  "pop_entry2 get upd j k st =
     (case get st j of
        None \<Rightarrow> Inl KeyError
      | Some e \<Rightarrow>
          (case e k of
             None \<Rightarrow> Inl KeyError
           | Some v \<Rightarrow> Inr (upd (\<lambda>d. d(j \<mapsto> e(k := None))) st)))"

definition try_pass :: "('s \<Rightarrow> py_error + 's) \<Rightarrow> 's \<Rightarrow> py_error + 's" where
  \<comment> \<open>\<open>try: stmt; except: pass\<close> for a statement that changes nothing when it raises\<close>
  "try_pass stmt st = (case stmt st of Inl e \<Rightarrow> Inr st | Inr st' \<Rightarrow> Inr st')"

subsection \<open>Names\<close>

definition digit :: "nat \<Rightarrow> char" where
  "digit d = ''0123456789'' ! d"

fun str_nat :: "nat \<Rightarrow> string" where
  \<comment> \<open>\<open>str(n)\<close> for a non-negative integer\<close>
  "str_nat n = (if n < 10 then [digit n] else str_nat (n div 10) @ [digit (n mod 10)])"

declare str_nat.simps [simp del]

definition subunit_name :: "nat \<Rightarrow> string" where
  \<comment> \<open>\<open>f'stimulus_s{i}'\<close>\<close>
  "subunit_name i = ''stimulus_s'' @ str_nat i"

fun contains :: "string \<Rightarrow> string \<Rightarrow> bool" where
  \<comment> \<open>\<open>pat in s\<close> for strings\<close>
  "contains pat [] = (pat = [])"
| "contains pat (c # cs) = (take (length pat) (c # cs) = pat \<or> contains pat cs)"

subsection \<open>Lines 278--313: the initial parameters\<close>

definition init_random_filter ::
  "'m numpy \<Rightarrow> int \<Rightarrow> nat \<times> string \<Rightarrow> 'm glm \<Rightarrow> py_error + 'm glm"
where
  "init_random_filter np random_seed ix st =
     (case ix of (i, name) \<Rightarrow>
        (case store2 (self_intercept st) ''random'' name (PyFloat 0) of
           Inl e \<Rightarrow> Inl e
         | Inr ic \<Rightarrow>
             (let st1 = st\<lparr>self_intercept := ic\<rparr> in
              case self_S st1 name of
                Some s \<Rightarrow>
                  (case lookup2 (self_XS st1) ''train'' name of
                     Inl e \<Rightarrow> Inl e
                   | Inr xs \<Rightarrow>
                       (let b = random_normal np (random_seed + int i) (shape1 np xs) in
                        case store2 (self_b st1) ''random'' name b of
                          Inl e \<Rightarrow> Inl e
                        | Inr b' \<Rightarrow>
                            (case matmul np s b of
                               Inl e \<Rightarrow> Inl e
                             | Inr w \<Rightarrow>
                                 (case store2 (self_w st1) ''random'' name w of
                                    Inl e \<Rightarrow> Inl e
                                  | Inr w' \<Rightarrow> Inr (st1\<lparr>self_b := b', self_w := w'\<rparr>)))))
              | None \<Rightarrow>
                  (case lookup2 (self_X st1) ''train'' name of
                     Inl e \<Rightarrow> Inl e
                   | Inr x \<Rightarrow>
                       (case store2 (self_w st1) ''random'' name
                               (random_normal np (random_seed + int i) (shape1 np x)) of
                          Inl e \<Rightarrow> Inl e
                        | Inr w' \<Rightarrow> Inr (st1\<lparr>self_w := w'\<rparr>))))))"

text \<open>
  \<open>compute_mle\<close> stands for the call \<open>self.compute_mle(y)\<close>, which runs only for the
  method \<open>mle\<close> and only while the flag \<open>mle_computed\<close> is unset.
\<close>

definition init_params ::
  "'m numpy \<Rightarrow> ('m glm \<Rightarrow> py_error + 'm glm) \<Rightarrow> string \<Rightarrow> int \<Rightarrow> 'm glm \<Rightarrow> py_error + 'm glm"
where
  "init_params np compute_mle method random_seed st =
     (if method = ''random'' then
        seq (map (init_random_filter np random_seed) (enumerate 0 (self_filter_names st))
             @ [\<lambda>st. case store2 (self_intercept st) ''random'' ''global'' (PyFloat 0) of
                        Inl e \<Rightarrow> Inl e
                      | Inr ic \<Rightarrow> Inr (st\<lparr>self_intercept := ic\<rparr>)])
          (st\<lparr>self_b := (self_b st)(''random'' \<mapsto> Map.empty),
              self_w := (self_w st)(''random'' \<mapsto> Map.empty),
              self_intercept := (self_intercept st)(''random'' \<mapsto> Map.empty)\<rparr>)
      else if method = ''mle'' then
        (if \<not> self_mle_computed st then compute_mle st else Inr st)
      else Inl ValueError)"

subsection \<open>Lines 315--366: renaming the stimulus filter to subunit filters\<close>

text \<open>The body of the loop over the new names, for a name that contains \<open>stimulus\<close>.\<close>

definition alias_stimulus :: "string \<Rightarrow> string \<Rightarrow> 'm glm \<Rightarrow> py_error + 'm glm" where
  "alias_stimulus method name =
     seq
       [copy_entry self_dims self_dims_update ''stimulus'' name,
        (\<lambda>st. case lookup (self_dims st) ''stimulus'' of
                 Inl e \<Rightarrow> Inl e
               | Inr d \<Rightarrow> Inr (st\<lparr>self_df := (self_df st)(name \<mapsto> d)\<rparr>)),
        copy_entry self_shift self_shift_update ''stimulus'' name,
        copy_entry self_filter_nonlinearity self_filter_nonlinearity_update ''stimulus'' name,
        copy_entry2 self_intercept self_intercept_update method ''stimulus'' name,
        copy_entry2 self_w self_w_update method ''stimulus'' name,
        when' (\<lambda>st. method \<in> dom (self_w_se st))
          (copy_entry2 self_w_se self_w_se_update method ''stimulus'' name),
        copy_entry2 self_X self_X_update ''train'' ''stimulus'' name,
        copy_entry self_edf self_edf_update ''stimulus'' name,
        when' (\<lambda>st. ''dev'' \<in> dom (self_X st))
          (copy_entry2 self_X self_X_update ''dev'' ''stimulus'' name),
        when' (\<lambda>st. ''stimulus'' \<in> dom (self_S st))
          (seq
             [copy_entry2 self_b self_b_update method ''stimulus'' name,
              when' (\<lambda>st. method \<in> dom (self_b_se st))
                (copy_entry2 self_b_se self_b_se_update method ''stimulus'' name),
              copy_entry2 self_XS self_XS_update ''train'' ''stimulus'' name,
              when' (\<lambda>st. ''dev'' \<in> dom (self_XS st))
                (copy_entry2 self_XS self_XS_update ''dev'' ''stimulus'' name),
              copy_entry self_P self_P_update ''stimulus'' name,
              copy_entry self_S self_S_update ''stimulus'' name])]"

text \<open>Lines 351--364: the entries of the aggregate filter are removed.\<close>

definition pop_stimulus :: "string \<Rightarrow> 'm glm \<Rightarrow> py_error + 'm glm" where
  "pop_stimulus method =
     seq
       [try_pass (pop_entry2 self_b self_b_update method ''stimulus''),
        pop_entry2 self_w self_w_update method ''stimulus'',
        pop_entry2 self_intercept self_intercept_update method ''stimulus'',
        pop_entry2 self_X self_X_update ''train'' ''stimulus'',
        pop_entry2 self_X self_X_update ''dev'' ''stimulus'',
        when' (\<lambda>st. dom (self_XS st) \<noteq> {})
          (seq
             [pop_entry2 self_XS self_XS_update ''train'' ''stimulus'',
              pop_entry2 self_XS self_XS_update ''dev'' ''stimulus'',
              pop_entry self_S self_S_update ''stimulus'',
              pop_entry self_P self_P_update ''stimulus''])]"

definition new_filter_names :: "int \<Rightarrow> string list \<Rightarrow> string list" where
  \<comment> \<open>lines 319--320, after \<open>remove\<close> has succeeded\<close>
  "new_filter_names num_subunits names =
     map subunit_name [0 ..< nat num_subunits] @ remove1 ''stimulus'' names"

definition expand_subunits :: "int \<Rightarrow> string \<Rightarrow> 'm glm \<Rightarrow> py_error + 'm glm" where
  "expand_subunits num_subunits method st =
     (if num_subunits \<noteq> 1 then
        (if ''stimulus'' \<notin> set (self_filter_names st) then Inl ValueError
         else
           (let filter_names = new_filter_names num_subunits (self_filter_names st) in
            seq (map (alias_stimulus method) (filter (contains ''stimulus'') filter_names)
                 @ [pop_stimulus method,
                    (\<lambda>st. Inr (st\<lparr>self_filter_names := filter_names\<rparr>))])
              st))
      else Inr st)"

subsection \<open>Lines 368--389: the parameter sets \<open>p[method]\<close> and \<open>p0\<close>\<close>

definition p0_filter ::
  "'m numpy \<Rightarrow> string \<Rightarrow> int \<Rightarrow> real \<Rightarrow> nat \<times> string \<Rightarrow>
   'm glm \<times> (string \<rightharpoonup> 'm pentry) \<Rightarrow> py_error + 'm glm \<times> (string \<rightharpoonup> 'm pentry)"
where
  "p0_filter np method random_seed add_noise_to_mle ix stp =
     (case (ix, stp) of ((i, name), (st, p0)) \<Rightarrow>
        (case (if name \<in> dom (self_S st) then lookup2 (self_b st) method name
               else lookup2 (self_w st) method name) of
           Inl e \<Rightarrow> Inl e
         | Inr v \<Rightarrow>
             (case store2 (self_p st) method name (PArr v) of
                Inl e \<Rightarrow> Inl e
              | Inr p1 \<Rightarrow>
                  (let noise = scale np add_noise_to_mle (noise_like np (random_seed + int i) v);
                       p01 = p0(name \<mapsto> PArr (add np v noise))
                   in case lookup (self_intercept st) method of
                        Inl e \<Rightarrow> Inl e
                      | Inr ic \<Rightarrow>
                          (case store2 p1 method ''intercept'' (PDict ic) of
                             Inl e \<Rightarrow> Inl e
                           | Inr p2 \<Rightarrow>
                               Inr (st\<lparr>self_p := p2\<rparr>, p01(''intercept'' \<mapsto> PDict ic)))))))"

definition build_p0 ::
  "'m numpy \<Rightarrow> string \<Rightarrow> int \<Rightarrow> real \<Rightarrow> real \<Rightarrow> 'm glm \<Rightarrow> py_error + 'm glm"
where
  "build_p0 np method random_seed add_noise_to_mle dt st =
     (case seq (map (p0_filter np method random_seed add_noise_to_mle)
                  (enumerate 0 (self_filter_names st)))
             (st\<lparr>self_p := (self_p st)(method \<mapsto> Map.empty)\<rparr>, Map.empty) of
        Inl e \<Rightarrow> Inl e
      | Inr (st', p0) \<Rightarrow> Inr (st'\<lparr>self_dt := Some dt, self_p0 := Some p0\<rparr>))"

subsection \<open>The method\<close>

record init_args =
  arg_num_subunits :: int
  arg_dt :: real
  arg_method :: string
  arg_compute_ci :: bool
  arg_random_seed :: int
  arg_add_noise_to_mle :: real

definition init_defaults :: init_args where
  "init_defaults =
     \<lparr>arg_num_subunits = 1, arg_dt = 33 / 1000, arg_method = ''random'',
      arg_compute_ci = True, arg_random_seed = 2046, arg_add_noise_to_mle = 0\<rparr>"

definition init_meta :: "init_args \<Rightarrow> 'm glm \<Rightarrow> 'm glm" where
  \<comment> \<open>lines 274--276\<close>
  "init_meta a st =
     st\<lparr>self_init_method := Some (arg_method a),
        self_num_subunits := Some (arg_num_subunits a),
        self_compute_ci := Some (arg_compute_ci a)\<rparr>"

definition initialize ::
  "'m numpy \<Rightarrow> ('m glm \<Rightarrow> py_error + 'm glm) \<Rightarrow> init_args \<Rightarrow> 'm glm \<Rightarrow> py_error + 'm glm"
where
  "initialize np compute_mle a =
     seq
       [(\<lambda>st. Inr (init_meta a st)),
        init_params np compute_mle (arg_method a) (arg_random_seed a),
        expand_subunits (arg_num_subunits a) (arg_method a),
        build_p0 np (arg_method a) (arg_random_seed a) (arg_add_noise_to_mle a) (arg_dt a)]"

text \<open>
  Examples: a model with one unsmoothed stimulus filter on the train split only, and
  the same model with the dev split registered as well.
\<close>

definition train_only_model :: "mat glm" where
  "train_only_model =
     (case add_design_matrices list_np [stim3] new_glm of Inr st \<Rightarrow> st | Inl e \<Rightarrow> new_glm)"

definition train_dev_model :: "mat glm" where
  "train_dev_model =
     (case add_design_matrices list_np [stim3, stim3_dev] new_glm of
        Inr st \<Rightarrow> st
      | Inl e \<Rightarrow> new_glm)"

definition three_subunits :: init_args where
  \<comment> \<open>\<open>initialize(num_subunits=3)\<close>\<close>
  "three_subunits = init_defaults\<lparr>arg_num_subunits := 3\<rparr>"

definition no_mle :: "mat glm \<Rightarrow> py_error + mat glm" where
  \<comment> \<open>a \<open>compute_mle\<close> that is never reached by the method \<open>random\<close>\<close>
  "no_mle st = Inl TypeError"

text \<open>
  Properties of statements used below: on an object without a dev split in \<open>self.X\<close>, a
  statement that \<open>keeps_no_dev\<close> raises \<open>KeyError\<close> or leaves the object without one, and
  a statement that \<open>dies\<close> raises \<open>KeyError\<close>.
\<close>

definition no_dev :: "'m glm \<Rightarrow> bool" where
  "no_dev st \<longleftrightarrow> ''dev'' \<notin> dom (self_X st)"

definition keeps_no_dev :: "('m glm \<Rightarrow> py_error + 'm glm) \<Rightarrow> bool" where
  "keeps_no_dev stmt \<longleftrightarrow>
     (\<forall>st. no_dev st \<longrightarrow> (case stmt st of Inl e \<Rightarrow> e = KeyError | Inr st' \<Rightarrow> no_dev st'))"

definition dies :: "('m glm \<Rightarrow> py_error + 'm glm) \<Rightarrow> bool" where
  "dies stmt \<longleftrightarrow> (\<forall>st. no_dev st \<longrightarrow> stmt st = Inl KeyError)"

definition fails :: "py_error + 'a \<Rightarrow> bool" where
  "fails res = (case res of Inl e \<Rightarrow> True | Inr v \<Rightarrow> False)"

section \<open>The optimiser loop (\<open>GLM.optimize\<close>)\<close>

text \<open>
  The numerical work of one iteration is external: the jitted \<open>step\<close> (cost, gradient
  and one Adam update), \<open>get_params\<close>, the forward pass with the metric, and the dev
  cost. They are the fields of \<open>opt_env\<close>:
  \<^item> \<open>train_step i s\<close> is \<open>step(i, opt_state)\<close>: the train cost and the next optimiser
    state;
  \<^item> \<open>train_metric p\<close> and \<open>dev_metric p\<close> are the values stored in \<open>metric_train[i]\<close>
    and \<open>metric_dev[i]\<close> for the parameters \<open>p\<close>;
  \<^item> \<open>dev_cost p\<close> is \<open>self.cost(p, kind='dev', precomputed=y_pred_dev, penalize=False)\<close>.
  They are total functions: a run in which one of them raises is not covered.
  Printing (\<open>verbose\<close>), the clock, and the last two statements, which store the
  predictions of the final iteration in \<open>self.y_pred['opt']\<close> (a dictionary that \<open>fit\<close>
  creates before it calls \<open>optimize\<close>), are left out.
\<close>

record ('s, 'p) opt_env =
  opt_init :: "'p \<Rightarrow> 's"
  train_step :: "nat \<Rightarrow> 's \<Rightarrow> fl \<times> 's"
  get_params :: "'s \<Rightarrow> 'p"
  train_metric :: "'p \<Rightarrow> fl"
  dev_cost :: "'p \<Rightarrow> fl"
  dev_metric :: "'p \<Rightarrow> fl"

datatype stop_reason = dev_stop | train_stop | maxiter_stop

text \<open>The local variables of \<open>optimize\<close> that the loop writes.\<close>

record ('s, 'p) opt_locals =
  cost_train :: "fl list"
  cost_dev :: "fl list"
  metric_train :: "fl list"
  metric_dev :: "fl list"
  params_list :: "'p list"
  opt_state :: 's

definition initial_locals :: "('s, 'p) opt_env \<Rightarrow> 'p \<Rightarrow> nat \<Rightarrow> ('s, 'p) opt_locals" where
  \<comment> \<open>lines 621--628: four arrays of \<open>num_iters\<close> NaNs and an empty list\<close>
  "initial_locals env p0 num_iters =
     \<lparr>cost_train = replicate num_iters NaN, cost_dev = replicate num_iters NaN,
      metric_train = replicate num_iters NaN, metric_dev = replicate num_iters NaN,
      params_list = [], opt_state = opt_init env p0\<rparr>"

definition iteration ::
  "('s, 'p) opt_env \<Rightarrow> bool \<Rightarrow> nat \<Rightarrow> ('s, 'p) opt_locals \<Rightarrow> ('s, 'p) opt_locals"
where
  \<comment> \<open>lines 640--651; \<open>has_dev\<close> is \<open>'dev' in self.y\<close>\<close>
  "iteration env has_dev i L =
     (let (c, s) = train_step env i (opt_state L);
          params = get_params env s;
          L1 = L\<lparr>cost_train := (cost_train L)[i := c],
                 opt_state := s,
                 params_list := params_list L @ [params],
                 metric_train := (metric_train L)[i := train_metric env params]\<rparr>
      in if has_dev then
           L1\<lparr>cost_dev := (cost_dev L1)[i := dev_cost env params],
               metric_dev := (metric_dev L1)[i := dev_metric env params]\<rparr>
         else L1)"

subsection \<open>Slices, differences and the early-stop test\<close>

definition py_bound :: "int \<Rightarrow> nat \<Rightarrow> nat" where
  \<comment> \<open>a slice bound on a sequence of length \<open>n\<close>: negative bounds count from the end, and
      the result is clipped to \<open>0 .. n\<close>\<close>
  "py_bound k n = (if k < 0 then nat (k + int n) else min (nat k) n)"

definition py_slice_int :: "int \<Rightarrow> int \<Rightarrow> 'a list \<Rightarrow> 'a list" where
  \<comment> \<open>\<open>xs[a:b]\<close>\<close>
  "py_slice_int a b xs =
     (let lo = py_bound a (length xs); hi = py_bound b (length xs)
      in take (hi - lo) (drop lo xs))"

definition np_diff :: "fl list \<Rightarrow> fl list" where
  \<comment> \<open>\<open>np.diff(a)\<close>, that is \<open>a[1:] - a[:-1]\<close>\<close>
  "np_diff xs = map2 (\<lambda>a b. fl_sub b a) xs (tl xs)"

definition window :: "int \<Rightarrow> nat \<Rightarrow> fl list \<Rightarrow> fl list" where
  \<comment> \<open>\<open>cost[i - tolerance:i]\<close>, the entries that the early-stop test looks at\<close>
  "window tolerance i xs = py_slice_int (int i - tolerance) (int i) xs"

definition all_positive :: "fl list \<Rightarrow> bool" where
  \<comment> \<open>\<open>np.all(ds > 0)\<close>\<close>
  "all_positive ds = list_all (\<lambda>d. fl_less (Fin 0) d) ds"

definition all_below :: "fl list \<Rightarrow> bool" where
  \<comment> \<open>\<open>np.all(ds < 1e-5)\<close>\<close>
  "all_below ds = list_all (\<lambda>d. fl_less d (Fin (1 / 10 ^ 5))) ds"

definition early_stop :: "int \<Rightarrow> bool \<Rightarrow> nat \<Rightarrow> fl list \<Rightarrow> fl list \<Rightarrow> stop_reason option" where
  \<comment> \<open>lines 660--679: the reason with which the loop breaks in iteration \<open>i\<close>, if it does\<close>
  "early_stop tolerance has_dev i ctrain cdev =
     (if tolerance \<noteq> 0 \<and> 300 < i then
        (if has_dev \<and> all_positive (np_diff (window tolerance i cdev)) then Some dev_stop
         else if all_below (np_diff (window tolerance i ctrain)) then Some train_stop
         else None)
      else None)"

subsection \<open>The loop\<close>

text \<open>
  The \<open>for\<close> loop from iteration \<open>i\<close> on. The result is the stop reason, the value of
  the loop variable \<open>i\<close> after the loop, and the locals. After a loop that was not
  broken \<open>i\<close> is \<open>num_iters - 1\<close>, and it is the initial 0 if \<open>num_iters\<close> is 0.
\<close>

function opt_loop ::
  "('s, 'p) opt_env \<Rightarrow> bool \<Rightarrow> int \<Rightarrow> nat \<Rightarrow> nat \<Rightarrow> ('s, 'p) opt_locals \<Rightarrow>
   stop_reason \<times> nat \<times> ('s, 'p) opt_locals"
where
  "opt_loop env has_dev tolerance num_iters i L =
     (if i < num_iters then
        (let L' = iteration env has_dev i L in
         case early_stop tolerance has_dev i (cost_train L') (cost_dev L') of
           Some reason \<Rightarrow> (reason, i, L')
         | None \<Rightarrow> opt_loop env has_dev tolerance num_iters (Suc i) L')
      else (maxiter_stop, i - 1, L))"
  by pat_completeness auto
termination
  by (relation "measure (\<lambda>(env, has_dev, tolerance, num_iters, i, L). num_iters - i)") auto

declare opt_loop.simps [simp del]

subsection \<open>Choosing the iterate to return\<close>

fun argmin_from :: "fl list \<Rightarrow> nat \<Rightarrow> nat \<Rightarrow> fl \<Rightarrow> nat" where
  \<comment> \<open>scan from position \<open>k\<close> with the best index and value so far; NaN counts as least,
      and the first of several least elements wins\<close>
  "argmin_from [] k best v = best"
| "argmin_from (x # xs) k best v =
     (if v = NaN then best
      else if x = NaN \<or> fl_less x v then argmin_from xs (Suc k) k x
      else argmin_from xs (Suc k) best v)"

definition np_argmin :: "fl list \<Rightarrow> py_error + nat" where
  "np_argmin xs = (case xs of [] \<Rightarrow> Inl ValueError | x # rest \<Rightarrow> Inr (argmin_from rest 1 0 x))"

fun argmax_from :: "fl list \<Rightarrow> nat \<Rightarrow> nat \<Rightarrow> fl \<Rightarrow> nat" where
  "argmax_from [] k best v = best"
| "argmax_from (x # xs) k best v =
     (if v = NaN then best
      else if x = NaN \<or> fl_less v x then argmax_from xs (Suc k) k x
      else argmax_from xs (Suc k) best v)"

definition np_argmax :: "fl list \<Rightarrow> py_error + nat" where
  "np_argmax xs = (case xs of [] \<Rightarrow> Inl ValueError | x # rest \<Rightarrow> Inr (argmax_from rest 1 0 x))"

definition py_index :: "'a list \<Rightarrow> int \<Rightarrow> py_error + 'a" where
  \<comment> \<open>\<open>xs[k]\<close>; a negative index counts from the end\<close>
  "py_index xs k =
     (let n = int (length xs); j = (if k < 0 then k + n else k)
      in if 0 \<le> j \<and> j < n then Inr (xs ! nat j) else Inl IndexError)"

definition as_int :: "py_error + nat \<Rightarrow> py_error + int" where
  "as_int r = (case r of Inl e \<Rightarrow> Inl e | Inr n \<Rightarrow> Inr (int n))"

definition select_best ::
  "string \<Rightarrow> string \<Rightarrow> stop_reason \<Rightarrow> int \<Rightarrow> nat \<Rightarrow> ('s, 'p) opt_locals \<Rightarrow> py_error + int"
where
  \<comment> \<open>lines 688--714: the index \<open>best\<close>; an unknown policy prints a line and uses the
      dev cost\<close>
  "select_best return_model metric stop tolerance i L =
     (if return_model = ''best_dev_cost'' then as_int (np_argmin (take (i + 1) (cost_dev L)))
      else if return_model = ''best_train_cost'' then
        as_int (np_argmin (take (i + 1) (cost_train L)))
      else if return_model = ''best_dev_metric'' then
        (if metric = ''mse'' \<or> metric = ''gcv''
         then as_int (np_argmin (take (i + 1) (metric_dev L)))
         else as_int (np_argmax (take (i + 1) (metric_dev L))))
      else if return_model = ''best_train_metric'' then
        (if metric = ''mse'' \<or> metric = ''gcv''
         then as_int (np_argmin (take (i + 1) (metric_train L)))
         else as_int (np_argmax (take (i + 1) (metric_train L))))
      else if return_model = ''last'' then
        (if stop = dev_stop then Inr (int i - tolerance) else Inr (int i))
      else as_int (np_argmin (take (i + 1) (cost_dev L))))"

text \<open>
  What \<open>optimize\<close> returns and retains: the selected parameters, the traces cut to
  \<open>i + 1\<close> entries, and the snapshots. The stop reason, the final \<open>i\<close>, \<open>best\<close>, and the
  number of loop bodies executed (one \<open>params_list.append\<close> each) are kept for reference.
\<close>

record 'p opt_result =
  returned :: 'p
  kept_cost_train :: "fl list"
  kept_cost_dev :: "fl list"
  kept_metric_train :: "fl list"
  kept_metric_dev :: "fl list"
  metric_dev_opt :: fl
  all_params :: "'p list"
  stop :: stop_reason
  last_i :: nat
  best :: int
  executed :: nat

definition optimize ::
  "('s, 'p) opt_env \<Rightarrow> bool \<Rightarrow> 'p \<Rightarrow> nat \<Rightarrow> string \<Rightarrow> int \<Rightarrow> string \<Rightarrow> py_error + 'p opt_result"
where
  "optimize env has_dev p0 num_iters metric tolerance return_model =
     (case opt_loop env has_dev tolerance num_iters 0 (initial_locals env p0 num_iters) of
        (reason, i, L) \<Rightarrow>
          (case select_best return_model metric reason tolerance i L of
             Inl e \<Rightarrow> Inl e
           | Inr b \<Rightarrow>
               (case py_index (params_list L) b of
                  Inl e \<Rightarrow> Inl e
                | Inr params \<Rightarrow>
                    (case py_index (metric_dev L) b of
                       Inl e \<Rightarrow> Inl e
                     | Inr m \<Rightarrow>
                         Inr \<lparr>returned = params,
                              kept_cost_train = take (i + 1) (cost_train L),
                              kept_cost_dev = take (i + 1) (cost_dev L),
                              kept_metric_train = take (i + 1) (metric_train L),
                              kept_metric_dev = take (i + 1) (metric_dev L),
                              metric_dev_opt = m,
                              all_params = take (i + 1) (params_list L),
                              stop = reason, last_i = i, best = b,
                              executed = length (params_list L)\<rparr>))))"

subsection \<open>The run, iteration by iteration\<close>

text \<open>
  The external functions are deterministic, so the values of iteration \<open>k\<close> are
  functions of \<open>k\<close>: the optimiser state before it, the train cost it records, its
  parameter snapshot, and its dev cost. \<open>locals_at k\<close> are the locals after \<open>k\<close>
  iterations.
\<close>

primrec state_at :: "('s, 'p) opt_env \<Rightarrow> 'p \<Rightarrow> nat \<Rightarrow> 's" where
  "state_at env p0 0 = opt_init env p0"
| "state_at env p0 (Suc k) = snd (train_step env k (state_at env p0 k))"

definition train_cost_at :: "('s, 'p) opt_env \<Rightarrow> 'p \<Rightarrow> nat \<Rightarrow> fl" where
  "train_cost_at env p0 k = fst (train_step env k (state_at env p0 k))"

definition params_at :: "('s, 'p) opt_env \<Rightarrow> 'p \<Rightarrow> nat \<Rightarrow> 'p" where
  "params_at env p0 k = get_params env (state_at env p0 (Suc k))"

definition dev_cost_at :: "('s, 'p) opt_env \<Rightarrow> 'p \<Rightarrow> nat \<Rightarrow> fl" where
  "dev_cost_at env p0 k = dev_cost env (params_at env p0 k)"

definition filled :: "(nat \<Rightarrow> fl) \<Rightarrow> nat \<Rightarrow> nat \<Rightarrow> fl list" where
  \<comment> \<open>an array of length \<open>n\<close> whose first \<open>k\<close> entries are written\<close>
  "filled f k n = map f [0 ..< k] @ replicate (n - k) NaN"

definition locals_at ::
  "('s, 'p) opt_env \<Rightarrow> bool \<Rightarrow> 'p \<Rightarrow> nat \<Rightarrow> nat \<Rightarrow> ('s, 'p) opt_locals"
where
  "locals_at env has_dev p0 n k =
     \<lparr>cost_train = filled (train_cost_at env p0) k n,
      cost_dev = (if has_dev then filled (dev_cost_at env p0) k n else replicate n NaN),
      metric_train = filled (\<lambda>j. train_metric env (params_at env p0 j)) k n,
      metric_dev = (if has_dev then filled (\<lambda>j. dev_metric env (params_at env p0 j)) k n
                    else replicate n NaN),
      params_list = map (params_at env p0) [0 ..< k],
      opt_state = state_at env p0 k\<rparr>"

definition stop_at ::
  "('s, 'p) opt_env \<Rightarrow> bool \<Rightarrow> 'p \<Rightarrow> int \<Rightarrow> nat \<Rightarrow> nat \<Rightarrow> stop_reason option"
where
  \<comment> \<open>the early-stop test of iteration \<open>j\<close>, on the arrays as they are then\<close>
  "stop_at env has_dev p0 tolerance n j =
     early_stop tolerance has_dev j
       (cost_train (locals_at env has_dev p0 n (Suc j)))
       (cost_dev (locals_at env has_dev p0 n (Suc j)))"


subsection \<open>The early-stop rule in terms of iterations\<close>

text \<open>
  \<open>recent f tol j\<close> are the values of the \<open>tol\<close> iterations before iteration \<open>j\<close>,
  and \<open>latest f tol j\<close> the values of the last \<open>tol\<close> iterations up to and including
  \<open>j\<close>. \<open>check_at\<close> is the early-stop rule read on the \<open>recent\<close> costs.
\<close>

definition recent :: "(nat \<Rightarrow> fl) \<Rightarrow> nat \<Rightarrow> nat \<Rightarrow> fl list" where
  "recent f tol j = map f [j - tol ..< j]"

definition latest :: "(nat \<Rightarrow> fl) \<Rightarrow> nat \<Rightarrow> nat \<Rightarrow> fl list" where
  "latest f tol j = map f [Suc j - tol ..< Suc j]"

definition check_at ::
  "('s, 'p) opt_env \<Rightarrow> bool \<Rightarrow> 'p \<Rightarrow> nat \<Rightarrow> nat \<Rightarrow> stop_reason option"
where
  "check_at env has_dev p0 tol j =
     (if tol = 0 \<or> j \<le> 300 then None
      else if has_dev \<and> all_positive (np_diff (recent (dev_cost_at env p0) tol j))
      then Some dev_stop
      else if all_below (np_diff (recent (train_cost_at env p0) tol j)) then Some train_stop
      else None)"

text \<open>
  An example run: the train cost of iteration \<open>k\<close> is \<open>k\<close>; the dev cost falls from
  iteration to iteration, except that it is 1 in iteration 300 and 2 in iteration 301.
  The optimiser state counts the steps taken, and the parameters are that count.
\<close>

definition late_rise_env :: "(nat, nat) opt_env" where
  "late_rise_env =
     \<lparr>opt_init = (\<lambda>p. 0), train_step = (\<lambda>i s. (Fin (real i), Suc s)),
      get_params = (\<lambda>s. s), train_metric = (\<lambda>p. Fin 0),
      dev_cost = (\<lambda>p. if p = 301 then Fin 1 else if p = 302 then Fin 2
                        else Fin (1000 - real p)),
      dev_metric = (\<lambda>p. Fin 0)\<rparr>"

text \<open>
  Two more example runs. In \<open>flat_env\<close> the train cost never changes. In \<open>valley_env\<close>
  the dev cost of iteration \<open>k\<close> is \<open>(k - 1)\<^sup>2\<close>, least in iteration 1.
\<close>

definition flat_env :: "(nat, nat) opt_env" where
  "flat_env =
     \<lparr>opt_init = (\<lambda>p. 0), train_step = (\<lambda>i s. (Fin 0, Suc s)),
      get_params = (\<lambda>s. s), train_metric = (\<lambda>p. Fin 0),
      dev_cost = (\<lambda>p. Fin 0), dev_metric = (\<lambda>p. Fin 0)\<rparr>"

definition valley_env :: "(nat, nat) opt_env" where
  "valley_env =
     \<lparr>opt_init = (\<lambda>p. 0), train_step = (\<lambda>i s. (Fin (1 / (1 + real i)), Suc s)),
      get_params = (\<lambda>s. s), train_metric = (\<lambda>p. Fin 0),
      dev_cost = (\<lambda>p. Fin ((real p - 2) * (real p - 2))), dev_metric = (\<lambda>p. Fin 0)\<rparr>"

section \<open>Fitting (\<open>GLM.fit\<close>)\<close>

text \<open>
  The response argument of \<open>fit\<close> is \<open>None\<close>, an array, or a dictionary of arrays.
  \<open>fit_responses\<close> is lines 781--790. The external functions of the optimiser depend
  on the object (its design matrices, responses, \<open>alpha\<close> and \<open>beta\<close>); \<open>env_of\<close> gives
  them for the object as it is when \<open>optimize\<close> is called. \<open>fit\<close> ends with
  \<open>_extract_opt_params\<close>, which reads \<open>self.p['opt']\<close> and does not assign it; the model
  stops at the assignment of \<open>self.p['opt']\<close>.
\<close>

datatype 'm fit_y = FitNone | FitArr 'm | FitDict "string \<Rightarrow> 'm option"

definition supplies_dev :: "'m fit_y \<Rightarrow> bool" where
  "supplies_dev y = (case y of FitDict d \<Rightarrow> d ''dev'' \<noteq> None | FitArr v \<Rightarrow> False | FitNone \<Rightarrow> False)"

definition fit_responses :: "'m numpy \<Rightarrow> 'm fit_y \<Rightarrow> 'm glm \<Rightarrow> py_error + 'm glm" where
  "fit_responses np y st =
     (case y of
        FitNone \<Rightarrow> if ''train'' \<notin> dom (self_y st) then Inl ValueError else Inr st
      | FitDict d \<Rightarrow>
          (case lookup d ''train'' of
             Inl e \<Rightarrow> Inl e
           | Inr y_train \<Rightarrow>
               (case self_burn_in st of
                  None \<Rightarrow> Inl AttributeError
                | Some b \<Rightarrow>
                    (let st1 = st\<lparr>self_y := (self_y st)(''train'' \<mapsto> rows_from np b y_train)\<rparr>
                     in case d ''dev'' of
                          None \<Rightarrow> Inr st1
                        | Some y_dev \<Rightarrow>
                            Inr (st1\<lparr>self_y :=
                                       (self_y st1)(''dev'' \<mapsto> rows_from np b y_dev)\<rparr>))))
      | FitArr v \<Rightarrow>
          (case self_burn_in st of
             None \<Rightarrow> Inl AttributeError
           | Some b \<Rightarrow> Inr (st\<lparr>self_y := (self_y st)(''train'' \<mapsto> rows_from np b v)\<rparr>)))"

definition fit ::
  "'m numpy \<Rightarrow> ('m glm \<Rightarrow> ('s, string \<Rightarrow> 'm pentry option) opt_env) \<Rightarrow> 'm fit_y \<Rightarrow> nat \<Rightarrow>
   string \<Rightarrow> int \<Rightarrow> string \<Rightarrow> 'm glm \<Rightarrow>
   py_error + 'm glm \<times> (string \<Rightarrow> 'm pentry option) opt_result"
where
  "fit np env_of y num_iters metric tolerance return_model st =
     (let return_model = (if ''dev'' \<notin> dom (self_y st) then ''last'' else return_model) in
      case fit_responses np y st of
        Inl e \<Rightarrow> Inl e
      | Inr st1 \<Rightarrow>
          (case self_p0 st1 of
             None \<Rightarrow> Inl AttributeError
           | Some p0 \<Rightarrow>
               (case optimize (env_of st1) (''dev'' \<in> dom (self_y st1)) p0 num_iters metric
                       tolerance return_model of
                  Inl e \<Rightarrow> Inl e
                | Inr res \<Rightarrow>
                    Inr (st1\<lparr>self_p := (self_p st1)(''opt'' \<mapsto> returned res)\<rparr>, res))))"

text \<open>
  An example: a model that was initialised but holds no responses yet, an optimiser
  whose parameters record the number of steps taken and whose dev cost grows with every
  step, and a response argument with both splits.
\<close>

definition counting_params :: "nat \<Rightarrow> (string \<Rightarrow> mat pentry option)" where
  "counting_params k = [''stimulus'' \<mapsto> PArr [[real k]]]"

definition rising_env :: "mat glm \<Rightarrow> (nat, string \<Rightarrow> mat pentry option) opt_env" where
  "rising_env st =
     \<lparr>opt_init = (\<lambda>p. 0), train_step = (\<lambda>i s. (Fin (real i), Suc s)),
      get_params = counting_params, train_metric = (\<lambda>p. Fin 0),
      dev_cost = (\<lambda>p. case p ''stimulus'' of Some (PArr [[x]]) \<Rightarrow> Fin x | _ \<Rightarrow> NaN),
      dev_metric = (\<lambda>p. Fin 0)\<rparr>"

definition initialised_model :: "mat glm" where
  "initialised_model = new_glm\<lparr>self_burn_in := Some 0, self_p0 := Some (counting_params 0)\<rparr>"

definition train_and_dev :: "mat fit_y" where
  "train_and_dev = FitDict [''train'' \<mapsto> [[1], [2]], ''dev'' \<mapsto> [[3]]]"

definition train_alone :: "mat fit_y" where
  "train_alone = FitDict [''train'' \<mapsto> [[1], [2]]]"

text \<open>Projections of the result of \<open>fit\<close>, for the examples.\<close>

definition fit_summary ::
  "py_error + 'm glm \<times> 'p opt_result \<Rightarrow> py_error + stop_reason \<times> nat \<times> int" where
  "fit_summary r = (case r of Inl e \<Rightarrow> Inl e | Inr (st, res) \<Rightarrow> Inr (stop res, last_i res, best res))"

definition fit_returned :: "py_error + 'm glm \<times> 'p opt_result \<Rightarrow> py_error + 'p" where
  "fit_returned r = (case r of Inl e \<Rightarrow> Inl e | Inr (st, res) \<Rightarrow> Inr (returned res))"

definition fit_final_iterate :: "py_error + 'm glm \<times> 'p opt_result \<Rightarrow> py_error + 'p" where
  "fit_final_iterate r = (case r of Inl e \<Rightarrow> Inl e | Inr (st, res) \<Rightarrow> Inr (last (all_params res)))"

section \<open>Theorems\<close>

text \<open>
  C6, as stated: for every metric name outside \<open>r2, r2adj, mse, corrcoef, gcv\<close>,
  \<open>compute_score\<close> raises. It does not: for the name \<open>accuracy\<close> the call prints one line
  and returns \<open>None\<close>.
\<close>

theorem C6_unsupported_metric_counterexample:
  "''accuracy'' \<notin> supported_metrics \<and>
   compute_score zero_metrics (Some 1) [1, 2] [1, 2] ''accuracy''
     = ([''Metric `accuracy` is not supported.''], Inr None) \<and>
   \<not> raises (compute_score zero_metrics (Some 1) [1, 2] [1, 2] ''accuracy'')"
  by (simp add: supported_metrics_def compute_score_def raises_def)

text \<open>
  C6, amended: for every metric name outside the supported set, \<open>compute_score\<close> does not
  raise; it prints the line \<open>Metric `name` is not supported.\<close> and returns \<open>None\<close>,
  whatever the responses and whether or not \<open>edf_tot\<close> is set.
\<close>

theorem C6_unsupported_metric_prints_and_returns_None:
  "metric \<notin> supported_metrics \<Longrightarrow>
   compute_score fns edf_tot y y_pred metric
     = ([''Metric `'' @ metric @ ''` is not supported.''], Inr None)"
  by (simp add: supported_metrics_def compute_score_def)

theorem C6_unsupported_metric_witness:
  "''f1'' \<notin> supported_metrics \<and>
   compute_score zero_metrics None [] [] ''f1'' = ([''Metric `f1` is not supported.''], Inr None)"
  using C6_unsupported_metric_prints_and_returns_None
          [of "''f1''" zero_metrics None "[]" "[]"]
  by (simp add: supported_metrics_def)


subsection \<open>The shared burn-in\<close>

lemmas adm_defs =
  add_design_matrix_def adm_defaults_def list_np_def new_glm_def adm_register_def
  adm_burn_in_def adm_design_def adm_raw_def ensure_def as_list_def first_dim_def
  store2_def lookup2_def lookup_def Let_def

lemma adm_raw_burn_in: "adm_raw np a st = Inr st' \<Longrightarrow> self_burn_in st' = self_burn_in st"
  by (auto simp: adm_raw_def adm_project_def Let_def split: option.splits sum.splits if_splits)

lemma adm_spline_burn_in:
  "adm_spline np a sm dims st = Inr st' \<Longrightarrow> self_burn_in st' = self_burn_in st"
  by (auto simp: adm_spline_def Let_def
           split: option.splits sum.splits if_splits prod.splits lam_arg.splits)

lemma adm_register_burn_in:
  "adm_register a st = Inr (st', d, s) \<Longrightarrow> self_burn_in st' = self_burn_in st"
  by (auto simp: adm_register_def Let_def split: option.splits sum.splits if_splits)

lemma adm_register_dims: "adm_register a st = Inr (st', d, s) \<Longrightarrow> d = dims_in_effect a st"
  by (auto simp: adm_register_def dims_in_effect_def lookup_def Let_def
           split: option.splits sum.splits if_splits)

lemma add_design_matrix_burn_in:
  assumes "add_design_matrix np a st = Inr st'"
  shows "self_burn_in st' = burn_in_after a st"
proof -
  from assms obtain st1 d s st2 st3 where
    r: "adm_register a st = Inr (st1, d, s)" and
    b: "adm_burn_in a d st1 = Inr st2" and
    g: "adm_design np a (if ndim1 np (arg_X a) then newaxis np (arg_X a) else arg_X a)
          d s st2 = Inr st3" and
    f: "(case arg_smooth a of None \<Rightarrow> adm_raw np a st3 | Some sm \<Rightarrow> adm_spline np a sm d st3)
          = Inr st'"
    by (auto simp: add_design_matrix_def Let_def split: sum.splits prod.splits)
  have 1: "self_burn_in st1 = self_burn_in st"
    using r by (rule adm_register_burn_in)
  have d: "d = dims_in_effect a st"
    using r by (rule adm_register_dims)
  have 4: "self_burn_in st' = self_burn_in st3"
    using f by (auto split: option.splits dest: adm_raw_burn_in adm_spline_burn_in)
  have 3: "self_burn_in st3 = (if arg_lag a then self_burn_in st2 else Some 0)"
    using g by (auto simp: adm_design_def split: sum.splits option.splits if_splits)
  have 2: "arg_lag a \<Longrightarrow> self_burn_in st2 = burn_in_after a st"
    using b 1 d by (auto simp: adm_burn_in_def burn_in_after_def split: sum.splits option.splits)
  show ?thesis
    using 2 3 4 by (auto simp: burn_in_after_def)
qed

lemma add_design_matrix_burn_in_Some:
  "add_design_matrix np a st = Inr st' \<Longrightarrow> self_burn_in st = Some b \<Longrightarrow>
   self_burn_in st' = (if arg_lag a then Some b else Some 0)"
  by (simp add: add_design_matrix_burn_in burn_in_after_def)

lemma add_design_matrices_burn_in:
  "add_design_matrices np as st = Inr st' \<Longrightarrow> self_burn_in st = Some b \<Longrightarrow>
   self_burn_in st' = (if \<forall>a \<in> set as. arg_lag a then Some b else Some 0)"
proof (induction as arbitrary: st b)
  case Nil
  then show ?case by simp
next
  case (Cons a as)
  from Cons.prems(1) obtain st1 where
    one: "add_design_matrix np a st = Inr st1" and
    rest: "add_design_matrices np as st1 = Inr st'"
    by (auto split: sum.splits)
  have b1: "self_burn_in st1 = (if arg_lag a then Some b else Some 0)"
    using one Cons.prems(2) by (rule add_design_matrix_burn_in_Some)
  show ?case
  proof (cases "arg_lag a")
    case True
    with b1 have "self_burn_in st1 = Some b" by simp
    from Cons.IH [OF rest this] True show ?thesis by simp
  next
    case False
    with b1 have "self_burn_in st1 = Some 0" by simp
    from Cons.IH [OF rest this] False show ?thesis by simp
  qed
qed

text \<open>
  C7, as stated: every later \<open>add_design_matrix\<close> call, with any lag setting, observes
  the burn-in that the first registration fixed. It does not: after
  \<open>add_design_matrix(X, dims=3)\<close> the burn-in is 2; a registration with \<open>lag=False\<close> then
  sets it to 0, and the dev-split registration that follows observes 0.
\<close>

theorem C7_burn_in_counterexample:
  "burn_in_of (add_design_matrices list_np [stim3] new_glm) = Inr (Some 2) \<and>
   burn_in_of (add_design_matrices list_np [stim3, hist_nolag] new_glm) = Inr (Some 0) \<and>
   burn_in_of (add_design_matrices list_np [stim3, hist_nolag, stim3_dev] new_glm) = Inr (Some 0)"
  by (simp add: burn_in_of_def stim3_def hist_nolag_def stim3_dev_def adm_defs)

text \<open>
  C7, amended: a registration that returns leaves the shared burn-in as
  \<open>burn_in_after\<close> says: the first one sets it (to the \<open>burn_in\<close> argument, by default
  to \<open>dims[0] - 1\<close>, and to 0 when \<open>lag\<close> is false); after any further registrations
  \<open>as\<close> the value is still the same if all of them are lagged, and is 0 as soon as one
  of them is unlagged.
\<close>

theorem C7_burn_in_shared_until_unlagged:
  assumes "add_design_matrix np a st = Inr st1"
    and "add_design_matrices np as st1 = Inr st2"
  shows "self_burn_in st1 = burn_in_after a st \<and>
         self_burn_in st2 = (if \<forall>a' \<in> set as. arg_lag a' then self_burn_in st1 else Some 0)"
proof -
  have first: "self_burn_in st1 = burn_in_after a st"
    using assms(1) by (rule add_design_matrix_burn_in)
  have "burn_in_after a st \<noteq> None"
  proof
    assume none: "burn_in_after a st = None"
    from assms(1) obtain st0 d s st' where
      r: "adm_register a st = Inr (st0, d, s)" and
      b: "adm_burn_in a d st0 = Inr st'"
      by (auto simp: add_design_matrix_def Let_def split: sum.splits prod.splits)
    have "d = dims_in_effect a st" using r by (rule adm_register_dims)
    moreover have "self_burn_in st0 = self_burn_in st" using r by (rule adm_register_burn_in)
    ultimately show False
      using none b
      by (auto simp: burn_in_after_def adm_burn_in_def split: if_splits option.splits sum.splits)
  qed
  then obtain b where "self_burn_in st1 = Some b"
    using first by auto
  from add_design_matrices_burn_in [OF assms(2) this] this first show ?thesis
    by simp
qed

theorem C7_burn_in_shared_witness:
  "\<exists>st1 st2.
     add_design_matrix list_np stim3 new_glm = Inr st1 \<and>
     add_design_matrices list_np [stim3_dev, stim3_dev] st1 = Inr st2 \<and>
     self_burn_in st1 = Some 2 \<and> self_burn_in st2 = Some 2"
proof -
  obtain st1 where 1: "add_design_matrix list_np stim3 new_glm = Inr st1"
    by (simp add: stim3_def adm_defs)
  obtain st2 where 2: "add_design_matrices list_np [stim3_dev, stim3_dev] st1 = Inr st2"
    using 1 by (auto simp: stim3_def stim3_dev_def adm_defs)
  have "burn_in_after stim3 (new_glm :: real list list glm) = Some 2"
    by (simp add: burn_in_after_def dims_in_effect_def stim3_def adm_defs)
  moreover have "\<forall>a' \<in> set [stim3_dev, stim3_dev]. arg_lag a'"
    by (simp add: stim3_dev_def adm_defaults_def)
  ultimately show ?thesis
    using C7_burn_in_shared_until_unlagged [OF 1 2] 1 2 by auto
qed


subsection \<open>Slicing the maximum-likelihood solution\<close>

lemma one_feature_model_fields:
  "self_n_features one_feature_model = [(''stimulus'', 1)]"
  "self_burn_in one_feature_model = Some 0"
  "self_filter_names one_feature_model = [''stimulus'']"
  "self_X one_feature_model ''train'' = Some [''stimulus'' \<mapsto> [[0], [1]]]"
  "self_S one_feature_model = Map.empty"
  by (simp_all add: one_feature_model_def one_feature_def adm_defs)

lemma one_feature_design: "mle_design one_feature_model [0, 1] = Inr [[1, 1, 0], [1, 1, 1]]"
  by (simp add: mle_design_def one_feature_model_fields mle_filter_block_def lookup2_def
        lookup_def ones_column_def hstack2_def numeral_2_eq_2)

text \<open>
  For the example's design matrix the solutions of the normal equations are the vectors
  \<open>(a, -a, 1)\<close>; the one of least norm, which a rank-deficient least-squares solve
  returns, is \<open>(0, 0, 1)\<close>.
\<close>

lemma one_feature_solutions:
  "solves_normal_equations [[1, 1, 0], [1, 1, 1]] [0, 1] [a, b, c] \<longleftrightarrow> a + b = 0 \<and> c = 1"
  unfolding solves_normal_equations_def column_def dot_def
  by (simp add: upt_rec numeral_3_eq_3) argo

lemma one_feature_least_norm:
  assumes "solves_normal_equations [[1, 1, 0], [1, 1, 1]] [0, 1] [a, b, c]"
  shows "norm2 [0, 0, 1] \<le> norm2 [a, b, c]"
proof -
  from assms have "c = 1"
    by (simp add: one_feature_solutions)
  then show ?thesis
    by (simp add: norm2_def dot_def)
qed

text \<open>
  C1 at the failing input. The design matrix has the columns (global intercept, filter
  intercept, feature) and the least-squares solution is \<open>(0, 0, 1)\<close>: the feature's
  coefficient, the block's only weight, is 1. The slices start at offset 0 instead of
  behind the global-intercept column, so \<open>compute_mle\<close> stores the coefficient of the
  filter's intercept column as the weight, \<open>w = [0]\<close>, and never reads the last
  component.
\<close>

theorem C1_slices_ignore_global_column:
  "mle_design one_feature_model [0, 1] = Inr [[1, 1, 0], [1, 1, 1]] \<and>
   solves_normal_equations [[1, 1, 0], [1, 1, 1]] [0, 1] [0, 0, 1] \<and>
   compute_mle_params one_feature_lstsq one_feature_model (YArr [0, 1])
     = Inr \<lparr>intercept_mle = [''stimulus'' \<mapsto> 0, ''global'' \<mapsto> 0],
            b_mle = Map.empty,
            w_mle = [''stimulus'' \<mapsto> [0]]\<rparr> \<and>
   block_weights (self_n_features one_feature_model) [0, 0, 1] 0 = [1]"
proof -
  have "compute_mle_params one_feature_lstsq one_feature_model (YArr [0, 1])
     = Inr \<lparr>intercept_mle = [''stimulus'' \<mapsto> 0, ''global'' \<mapsto> 0],
            b_mle = Map.empty,
            w_mle = [''stimulus'' \<mapsto> [0]]\<rparr>"
    by (simp add: compute_mle_params_def mle_y_train_def one_feature_design
          one_feature_model_fields py_slice_from_def one_feature_lstsq_def mle_idx_def
          mle_slice_filter_def py_slice_def Let_def)
  moreover have "block_weights (self_n_features one_feature_model) [0, 0, 1] 0 = [1]"
    by (simp add: one_feature_model_fields block_weights_def block_start_def py_slice_def)
  moreover have "solves_normal_equations [[1, 1, 0], [1, 1, 1]] [0, 1] [0, 0, 1]"
    by (simp add: one_feature_solutions)
  ultimately show ?thesis
    using one_feature_design by simp
qed


subsection \<open>The unpenalised cost\<close>

lemma floor_positive_inf_only:
  "0 < c \<Longrightarrow>
   fl_maximum (if x \<noteq> PInf then x else Fin 0) (Fin c)
     = fl_maximum (if x = PInf \<or> x = NInf then Fin 0 else x) (Fin c)"
  by (cases x) (auto simp: fl_maximum_def)

lemma floored_code:
  "map (\<lambda>x. fl_maximum x (Fin (1 / 10 ^ 20))) (map (\<lambda>x. if x \<noteq> PInf then x else Fin 0) r)
     = floored r"
  unfolding floored_def map_map comp_def by (simp add: floor_positive_inf_only)

lemma length_floored: "length (floored r) = length r"
  by (simp add: floored_def)

lemma map2_map1: "map2 f (map g xs) ys = map (\<lambda>(a, b). f (g a) b) (zip xs ys)"
  by (simp add: zip_map1 split_def comp_def)

lemma loss_gaussian: "length y = length r \<Longrightarrow> loss ''gaussian'' y r = Inr (gaussian_nll y r)"
  by (simp add: loss_def broadcast2_def gaussian_nll_def split_def comp_def)

lemma loss_poisson:
  assumes "length y = length r"
  shows "loss ''poisson'' y r = Inr (poisson_nll y r)"
proof -
  have "loss ''poisson'' y r =
          (case fl_dot (map fl_neg (map fl_log (floored r))) y of
             Inl e \<Rightarrow> Inl e
           | Inr term0 \<Rightarrow> Inr (fl_add term0 (fl_sum (floored r))))"
    unfolding loss_def Let_def floored_code by simp
  also have "fl_dot (map fl_neg (map fl_log (floored r))) y
               = Inr (fl_sum (map (\<lambda>(a, b). fl_mul (fl_neg (fl_log a)) b) (zip (floored r) y)))"
    using assms by (simp add: fl_dot_def length_floored map2_map1 del: map_map)
  finally show ?thesis
    by (simp add: poisson_nll_def)
qed

lemma loss_other:
  "d \<noteq> ''gaussian'' \<Longrightarrow> d \<noteq> ''poisson'' \<Longrightarrow> loss d y r = Inl (NotImplementedError d)"
  by (simp add: loss_def)

text \<open>
  C2: for every parameter set \<open>p\<close> and split \<open>kind\<close> with response \<open>y\<close> and predicted
  response \<open>r\<close> (of the same length), the cost with \<open>penalize=False\<close> is
  \<open>0.5 * sum((y - r)^2)\<close> for the gaussian distribution, \<open>-log(r') \<cdot> y + sum(r')\<close> for
  the poisson distribution, where \<open>r'\<close> is \<open>r\<close> with its infinite entries replaced by 0
  and then floored at \<open>1e-20\<close>, and the exception \<open>NotImplementedError\<close> for any other
  distribution.
\<close>

theorem C2_unpenalized_cost:
  assumes "responses env kind = Some y"
    and "predicted env p kind precomputed = Inr r"
    and "length y = length r"
  shows "cost env p kind precomputed False =
           (if distr env = ''gaussian'' then Inr (gaussian_nll y r)
            else if distr env = ''poisson'' then Inr (poisson_nll y r)
            else Inl (NotImplementedError (distr env)))"
proof -
  have "cost env p kind precomputed False = loss (distr env) y r"
    using assms(1,2) by (simp add: cost_def predicted_def lookup_def split: sum.splits)
  then show ?thesis
    using assms(3) by (simp add: loss_gaussian loss_poisson loss_other)
qed

theorem C2_unpenalized_cost_witness:
  "responses poisson_env ''dev'' = Some [Fin 2, Fin 3, Fin 0] \<and>
   predicted poisson_env () ''dev'' (Some [Fin 1, PInf, NInf]) = Inr [Fin 1, PInf, NInf] \<and>
   floored [Fin 1, PInf, NInf] = [Fin 1, Fin (1 / 10 ^ 20), Fin (1 / 10 ^ 20)] \<and>
   cost poisson_env () ''dev'' (Some [Fin 1, PInf, NInf]) False
     = Inr (poisson_nll [Fin 2, Fin 3, Fin 0] [Fin 1, PInf, NInf])"
proof -
  have 1: "responses poisson_env ''dev'' = Some [Fin 2, Fin 3, Fin 0]"
    by (simp add: poisson_env_def)
  have 2: "predicted poisson_env () ''dev'' (Some [Fin 1, PInf, NInf]) = Inr [Fin 1, PInf, NInf]"
    by (simp add: predicted_def)
  have 3: "length [Fin 2, Fin 3, Fin 0] = length [Fin 1, PInf, NInf]"
    by simp
  have 4: "floored [Fin 1, PInf, NInf] = [Fin 1, Fin (1 / 10 ^ 20), Fin (1 / 10 ^ 20)]"
    by (simp add: floored_def fl_maximum_def)
  from C2_unpenalized_cost [OF 1 2 3] 1 2 4 show ?thesis
    by (simp add: poisson_env_def)
qed


subsection \<open>Subunit expansion\<close>

lemmas stmt_defs =
  copy_entry_def copy_entry2_def pop_entry_def pop_entry2_def try_pass_def when'_def

lemma str_nat_digit: "n < 10 \<Longrightarrow> str_nat n = [digit n]"
  by (subst str_nat.simps) simp

lemma subunit_names:
  "subunit_name 0 = ''stimulus_s0''"
  "subunit_name (Suc 0) = ''stimulus_s1''"
  "subunit_name (Suc (Suc 0)) = ''stimulus_s2''"
  by (simp_all add: subunit_name_def digit_def str_nat_digit)

lemma three_new_filter_names:
  "new_filter_names 3 [''stimulus''] = [''stimulus_s0'', ''stimulus_s1'', ''stimulus_s2'']"
  by (simp add: new_filter_names_def subunit_names upt_rec numeral_3_eq_3 eval_nat_numeral)

lemma keeps_no_devI:
  "(\<And>st. no_dev st \<Longrightarrow> (case stmt st of Inl e \<Rightarrow> e = KeyError | Inr st' \<Rightarrow> no_dev st')) \<Longrightarrow>
   keeps_no_dev stmt"
  by (simp add: keeps_no_dev_def)

lemma keeps_no_dev_seq: "list_all keeps_no_dev stmts \<Longrightarrow> keeps_no_dev (seq stmts)"
proof (induction stmts)
  case Nil
  then show ?case by (simp add: keeps_no_dev_def)
next
  case (Cons s stmts)
  then have s: "keeps_no_dev s" and r: "keeps_no_dev (seq stmts)"
    by simp_all
  show ?case
  proof (rule keeps_no_devI)
    fix st :: "'a glm"
    assume nd: "no_dev st"
    show "case seq (s # stmts) st of Inl e \<Rightarrow> e = KeyError | Inr st' \<Rightarrow> no_dev st'"
    proof (cases "s st")
      case (Inl e)
      with s nd show ?thesis
        by (auto simp: keeps_no_dev_def split: sum.splits)
    next
      case (Inr st1)
      with s nd have "no_dev st1"
        by (auto simp: keeps_no_dev_def split: sum.splits)
      with r Inr show ?thesis
        by (auto simp: keeps_no_dev_def split: sum.splits)
    qed
  qed
qed

lemma keeps_no_dev_when: "keeps_no_dev stmt \<Longrightarrow> keeps_no_dev (when' c stmt)"
  by (auto simp: keeps_no_dev_def when'_def)

lemma keeps_no_dev_try_pop: "keeps_no_dev (try_pass (pop_entry2 self_b self_b_update m k))"
  by (auto simp: keeps_no_dev_def try_pass_def pop_entry2_def no_dev_def
           split: sum.splits option.splits)

lemma keeps_no_dev_alias: "keeps_no_dev (alias_stimulus method name)"
  unfolding alias_stimulus_def
  apply (rule keeps_no_dev_seq)
  apply simp
  apply (intro conjI keeps_no_dev_when keeps_no_dev_seq)
  apply (auto simp: keeps_no_dev_def stmt_defs no_dev_def lookup_def
              split: option.splits sum.splits)
  done

lemma dies_seq: "list_all keeps_no_dev pre \<Longrightarrow> dies s \<Longrightarrow> dies (seq (pre @ s # post))"
proof (induction pre)
  case Nil
  then show ?case by (auto simp: dies_def)
next
  case (Cons p pre)
  then have p: "keeps_no_dev p" and r: "dies (seq (pre @ s # post))"
    by simp_all
  show ?case
    unfolding dies_def
  proof (intro allI impI)
    fix st :: "'a glm"
    assume nd: "no_dev st"
    show "seq ((p # pre) @ s # post) st = Inl KeyError"
    proof (cases "p st")
      case (Inl e)
      with p nd show ?thesis
        by (auto simp: keeps_no_dev_def split: sum.splits)
    next
      case (Inr st1)
      with p nd have "no_dev st1"
        by (auto simp: keeps_no_dev_def split: sum.splits)
      with r Inr show ?thesis
        by (auto simp: dies_def)
    qed
  qed
qed

lemma dies_pop_dev: "dies (pop_entry2 self_X self_X_update ''dev'' k)"
  by (auto simp: dies_def pop_entry2_def no_dev_def split: option.splits)

lemma dies_pop_stimulus: "dies (pop_stimulus method)"
proof -
  have "dies (seq ([try_pass (pop_entry2 self_b self_b_update method ''stimulus''),
                    pop_entry2 self_w self_w_update method ''stimulus'',
                    pop_entry2 self_intercept self_intercept_update method ''stimulus'',
                    pop_entry2 self_X self_X_update ''train'' ''stimulus''] @
                   pop_entry2 self_X self_X_update ''dev'' ''stimulus'' #
                   [when' (\<lambda>st. dom (self_XS st) \<noteq> {})
                      (seq
                         [pop_entry2 self_XS self_XS_update ''train'' ''stimulus'',
                          pop_entry2 self_XS self_XS_update ''dev'' ''stimulus'',
                          pop_entry self_S self_S_update ''stimulus'',
                          pop_entry self_P self_P_update ''stimulus''])]))"
    apply (rule dies_seq)
     apply (simp add: keeps_no_dev_try_pop)
     apply (auto simp: keeps_no_dev_def pop_entry2_def no_dev_def split: option.splits)[1]
    apply (rule dies_pop_dev)
    done
  then show ?thesis
    by (simp add: pop_stimulus_def)
qed

lemma expand_subunits_no_dev:
  assumes "no_dev st" and "''stimulus'' \<in> set (self_filter_names st)" and "n \<noteq> 1"
  shows "expand_subunits n method st = Inl KeyError"
proof -
  let ?names = "new_filter_names n (self_filter_names st)"
  have "dies (seq (map (alias_stimulus method) (filter (contains ''stimulus'') ?names)
                   @ pop_stimulus method # [(\<lambda>st. Inr (st\<lparr>self_filter_names := ?names\<rparr>))]))"
    by (rule dies_seq) (simp_all add: list_all_iff keeps_no_dev_alias dies_pop_stimulus)
  then have "seq (map (alias_stimulus method) (filter (contains ''stimulus'') ?names)
                  @ pop_stimulus method # [(\<lambda>st. Inr (st\<lparr>self_filter_names := ?names\<rparr>))]) st
               = Inl KeyError"
    using assms(1) unfolding dies_def by blast
  with assms(2,3) show ?thesis
    by (simp add: expand_subunits_def Let_def)
qed

lemma init_random_filter_frame:
  "init_random_filter np seed ix st = Inr st' \<Longrightarrow>
   self_X st' = self_X st \<and> self_filter_names st' = self_filter_names st"
  by (auto simp: init_random_filter_def Let_def split: prod.splits sum.splits option.splits)

lemma seq_frame:
  assumes "\<And>s st st'. s \<in> set stmts \<Longrightarrow> s st = Inr st' \<Longrightarrow> f st' = f st"
  shows "seq stmts st = Inr st' \<Longrightarrow> f st' = f st"
  using assms
proof (induction stmts arbitrary: st)
  case Nil
  then show ?case by simp
next
  case (Cons s stmts)
  from Cons.prems(1) obtain st1 where 1: "s st = Inr st1" and 2: "seq stmts st1 = Inr st'"
    by (auto split: sum.splits)
  have "f st1 = f st"
    using Cons.prems(2) [of s st st1] 1 by simp
  moreover have "f st' = f st1"
  proof (rule Cons.IH [OF 2])
    fix s' sa sb
    assume "s' \<in> set stmts" "s' sa = Inr sb"
    then show "f sb = f sa"
      using Cons.prems(2) [of s' sa sb] by simp
  qed
  ultimately show ?case by simp
qed

lemma init_params_random_frame:
  assumes "init_params np c ''random'' seed st = Inr st'"
  shows "self_X st' = self_X st \<and> self_filter_names st' = self_filter_names st"
proof -
  let ?f = "\<lambda>st. (self_X st, self_filter_names st)"
  have "?f st' = ?f (st\<lparr>self_b := (self_b st)(''random'' \<mapsto> Map.empty),
                         self_w := (self_w st)(''random'' \<mapsto> Map.empty),
                         self_intercept := (self_intercept st)(''random'' \<mapsto> Map.empty)\<rparr>)"
    apply (rule seq_frame [where f = "?f"])
    defer
    using assms apply (simp add: init_params_def)
    apply (auto simp: store2_def split: option.splits sum.splits dest: init_random_filter_frame)
    done
  then show ?thesis by simp
qed

lemma init_params_frame:
  assumes "\<And>s s'. compute_mle s = Inr s' \<Longrightarrow>
             self_X s' = self_X s \<and> self_filter_names s' = self_filter_names s"
    and "init_params np compute_mle method seed st = Inr st'"
  shows "self_X st' = self_X st \<and> self_filter_names st' = self_filter_names st"
proof (cases "method = ''random''")
  case True
  with assms(2) show ?thesis
    by (auto dest: init_params_random_frame)
next
  case False
  with assms show ?thesis
    by (auto simp: init_params_def split: if_splits)
qed

lemma initialize_unfold:
  "initialize np compute_mle a st =
     (case init_params np compute_mle (arg_method a) (arg_random_seed a) (init_meta a st) of
        Inl e \<Rightarrow> Inl e
      | Inr st1 \<Rightarrow>
          (case expand_subunits (arg_num_subunits a) (arg_method a) st1 of
             Inl e \<Rightarrow> Inl e
           | Inr st2 \<Rightarrow>
               build_p0 np (arg_method a) (arg_random_seed a) (arg_add_noise_to_mle a)
                 (arg_dt a) st2))"
  by (simp add: initialize_def split: sum.splits)

lemma train_only_model_fields:
  "self_filter_names train_only_model = [''stimulus'']"
  "self_X train_only_model = [''train'' \<mapsto> [''stimulus'' \<mapsto> [[3], [4]]]]"
  "self_S train_only_model = Map.empty"
  by (simp_all add: train_only_model_def stim3_def adm_defs)

lemma train_only_init_params:
  "\<exists>st1. init_params list_np no_mle ''random'' 2046 (init_meta three_subunits train_only_model)
           = Inr st1"
  by (simp add: init_params_def init_meta_def train_only_model_fields init_random_filter_def
        store2_def lookup2_def lookup_def Let_def list_np_def)

text \<open>
  C9: \<open>initialize\<close> with \<open>num_subunits\<close> other than 1 pops \<open>self.X['dev']['stimulus']\<close>
  without a guard. So on every model with a filter \<open>stimulus\<close> and no dev split in
  \<open>self.X\<close> the call fails, and it fails with \<open>KeyError\<close> whenever the parameter
  initialisation before the renaming block went through. (\<open>compute_mle\<close>, which runs
  first for the method \<open>mle\<close>, assigns neither \<open>self.X\<close> nor \<open>self.filter_names\<close>; that
  is the first assumption.)
\<close>

theorem C9_no_dev_split_key_error:
  assumes "\<And>s s'. compute_mle s = Inr s' \<Longrightarrow>
             self_X s' = self_X s \<and> self_filter_names s' = self_filter_names s"
    and "''dev'' \<notin> dom (self_X st)"
    and "''stimulus'' \<in> set (self_filter_names st)"
    and "arg_num_subunits a \<noteq> 1"
  shows "fails (initialize np compute_mle a st) \<and>
         (\<not> fails (init_params np compute_mle (arg_method a) (arg_random_seed a) (init_meta a st))
            \<longrightarrow> initialize np compute_mle a st = Inl KeyError)"
proof (cases "init_params np compute_mle (arg_method a) (arg_random_seed a) (init_meta a st)")
  case (Inl e)
  then show ?thesis
    by (simp add: initialize_unfold fails_def)
next
  case (Inr st1)
  from init_params_frame [OF assms(1) Inr]
  have "self_X st1 = self_X st" and "self_filter_names st1 = self_filter_names st"
    by (simp_all add: init_meta_def)
  with assms(2,3) have "no_dev st1" and "''stimulus'' \<in> set (self_filter_names st1)"
    by (simp_all add: no_dev_def)
  then have "expand_subunits (arg_num_subunits a) (arg_method a) st1 = Inl KeyError"
    using assms(4) by (rule expand_subunits_no_dev)
  with Inr show ?thesis
    by (simp add: initialize_unfold fails_def)
qed

theorem C9_no_dev_split_witness:
  "''dev'' \<notin> dom (self_X train_only_model) \<and>
   ''stimulus'' \<in> set (self_filter_names train_only_model) \<and>
   arg_num_subunits three_subunits \<noteq> 1 \<and>
   \<not> fails (init_params list_np no_mle (arg_method three_subunits)
              (arg_random_seed three_subunits) (init_meta three_subunits train_only_model)) \<and>
   initialize list_np no_mle three_subunits train_only_model = Inl KeyError"
proof -
  have 1: "\<And>s s'. no_mle s = Inr s' \<Longrightarrow>
             self_X s' = self_X s \<and> self_filter_names s' = self_filter_names s"
    by (simp add: no_mle_def)
  have 2: "''dev'' \<notin> dom (self_X train_only_model)"
    by (simp add: train_only_model_fields)
  have 3: "''stimulus'' \<in> set (self_filter_names train_only_model)"
    by (simp add: train_only_model_fields)
  have 4: "arg_num_subunits three_subunits \<noteq> 1"
    by (simp add: three_subunits_def)
  have 5: "\<not> fails (init_params list_np no_mle (arg_method three_subunits)
              (arg_random_seed three_subunits) (init_meta three_subunits train_only_model))"
    using train_only_init_params
    by (auto simp: fails_def three_subunits_def init_defaults_def)
  from C9_no_dev_split_key_error [of no_mle train_only_model three_subunits list_np, OF 1 2 3 4]
    2 3 4 5
  show ?thesis by blast
qed

text \<open>
  C8 at the failing input: a model whose only filter is \<open>stimulus\<close>, registered on the
  train split only. \<open>initialize(num_subunits=3)\<close> raises \<open>KeyError\<close> at
  \<open>self.X['dev'].pop('stimulus')\<close>, before \<open>self.filter_names\<close> is assigned, so the
  registered names are still \<open>['stimulus']\<close>.
\<close>

theorem C8_expansion_fails_without_dev_split:
  "self_filter_names train_only_model = [''stimulus''] \<and>
   initialize list_np no_mle three_subunits train_only_model = Inl KeyError"
proof -
  obtain st1 where
    1: "init_params list_np no_mle ''random'' 2046 (init_meta three_subunits train_only_model)
          = Inr st1"
    using train_only_init_params by blast
  then have "self_X st1 = self_X train_only_model"
    and "self_filter_names st1 = self_filter_names train_only_model"
    by (auto dest: init_params_random_frame simp: init_meta_def)
  then have "no_dev st1" and "''stimulus'' \<in> set (self_filter_names st1)"
    by (simp_all add: no_dev_def train_only_model_fields)
  then have "expand_subunits 3 ''random'' st1 = Inl KeyError"
    by (rule expand_subunits_no_dev) simp
  with 1 show ?thesis
    by (simp add: initialize_unfold three_subunits_def init_defaults_def train_only_model_fields)
qed

text \<open>
  With the dev split registered as well, the same call completes and the names, and the
  aliases' \<open>dims\<close>, \<open>shift\<close> and nonlinearity, are as C8 describes.
\<close>

lemma train_dev_model_fields:
  "self_filter_names train_dev_model = [''stimulus'']"
  "self_dims train_dev_model ''stimulus'' = Some (Some [3])"
  "self_shift train_dev_model ''stimulus'' = Some 0"
  "self_filter_nonlinearity train_dev_model ''stimulus'' = Some ''none''"
  by (simp_all add: train_dev_model_def stim3_def stim3_dev_def adm_defs)

lemma expansion_with_dev_split:
  "\<exists>st. initialize list_np no_mle three_subunits train_dev_model = Inr st \<and>
        self_filter_names st = [''stimulus_s0'', ''stimulus_s1'', ''stimulus_s2''] \<and>
        list_all (\<lambda>name. self_dims st name = self_dims train_dev_model ''stimulus'' \<and>
                         self_shift st name = self_shift train_dev_model ''stimulus'' \<and>
                         self_filter_nonlinearity st name
                           = self_filter_nonlinearity train_dev_model ''stimulus'')
          (self_filter_names st)"
  unfolding train_dev_model_fields
  by (simp add: initialize_def three_subunits_def init_defaults_def init_params_def init_meta_def
        init_random_filter_def expand_subunits_def three_new_filter_names alias_stimulus_def
        pop_stimulus_def stmt_defs train_dev_model_def stim3_def stim3_dev_def adm_defs
        build_p0_def p0_filter_def)


subsection \<open>The optimiser loop\<close>

lemma length_filled: "k \<le> n \<Longrightarrow> length (filled f k n) = n"
  by (simp add: filled_def)

lemma filled_update: "k < n \<Longrightarrow> v = f k \<Longrightarrow> (filled f k n)[k := v] = filled f (Suc k) n"
proof -
  assume kn: "k < n" and v: "v = f k"
  from kn have "replicate (n - k) NaN = NaN # replicate (n - Suc k) NaN"
    by (cases "n - k") (auto simp: Suc_diff_Suc)
  then show ?thesis
    using v by (simp add: filled_def list_update_append)
qed

lemma iteration_locals_at:
  assumes "k < n"
  shows "iteration env has_dev k (locals_at env has_dev p0 n k) = locals_at env has_dev p0 n (Suc k)"
  using assms
  by (simp add: iteration_def locals_at_def Let_def split_def filled_update
        train_cost_at_def params_at_def dev_cost_at_def)

lemma initial_locals_at: "initial_locals env p0 n = locals_at env has_dev p0 n 0"
  by (simp add: initial_locals_def locals_at_def filled_def)

lemma opt_loop_step:
  assumes "i < n"
  shows "opt_loop env has_dev tol n i (locals_at env has_dev p0 n i) =
     (case stop_at env has_dev p0 tol n i of
        Some r \<Rightarrow> (r, i, locals_at env has_dev p0 n (Suc i))
      | None \<Rightarrow> opt_loop env has_dev tol n (Suc i) (locals_at env has_dev p0 n (Suc i)))"
  using assms
  by (subst opt_loop.simps) (simp add: iteration_locals_at stop_at_def Let_def)

lemma opt_loop_end: "opt_loop env has_dev tol n n L = (maxiter_stop, n - 1, L)"
  by (subst opt_loop.simps) simp

lemma opt_loop_no_stop:
  assumes "\<forall>j. i \<le> j \<and> j < n \<longrightarrow> stop_at env has_dev p0 tol n j = None" and "i \<le> n"
  shows "opt_loop env has_dev tol n i (locals_at env has_dev p0 n i)
           = (maxiter_stop, n - 1, locals_at env has_dev p0 n n)"
  using assms
proof (induction "n - i" arbitrary: i)
  case 0
  then have "i = n" by simp
  then show ?case by (simp add: opt_loop_end)
next
  case (Suc d)
  then have lt: "i < n" by simp
  with Suc.prems have "stop_at env has_dev p0 tol n i = None" by simp
  moreover have "opt_loop env has_dev tol n (Suc i) (locals_at env has_dev p0 n (Suc i))
           = (maxiter_stop, n - 1, locals_at env has_dev p0 n n)"
    using Suc.hyps Suc.prems lt by (intro Suc.hyps(1)) auto
  ultimately show ?case using lt by (simp add: opt_loop_step)
qed

lemma opt_loop_stop:
  assumes "\<forall>j. i \<le> j \<and> j < k \<longrightarrow> stop_at env has_dev p0 tol n j = None"
    and "stop_at env has_dev p0 tol n k = Some r" and "i \<le> k" and "k < n"
  shows "opt_loop env has_dev tol n i (locals_at env has_dev p0 n i)
           = (r, k, locals_at env has_dev p0 n (Suc k))"
  using assms
proof (induction "k - i" arbitrary: i)
  case 0
  then have "i = k" by simp
  with "0.prems" show ?case by (simp add: opt_loop_step)
next
  case (Suc d)
  then have lt: "i < k" by simp
  with Suc.prems have "stop_at env has_dev p0 tol n i = None" by simp
  moreover have "opt_loop env has_dev tol n (Suc i) (locals_at env has_dev p0 n (Suc i))
           = (r, k, locals_at env has_dev p0 n (Suc k))"
    using Suc.hyps Suc.prems lt by (intro Suc.hyps(1)) auto
  ultimately show ?case using lt Suc.prems by (simp add: opt_loop_step)
qed

lemma opt_loop_cases:
  assumes "opt_loop env has_dev tol n 0 (initial_locals env p0 n) = (r, i, L)"
  shows "(r = maxiter_stop \<and> i = n - 1 \<and> L = locals_at env has_dev p0 n n \<and>
          (\<forall>j < n. stop_at env has_dev p0 tol n j = None)) \<or>
         (i < n \<and> stop_at env has_dev p0 tol n i = Some r \<and> L = locals_at env has_dev p0 n (Suc i) \<and>
          (\<forall>j < i. stop_at env has_dev p0 tol n j = None))"
proof (cases "\<exists>j < n. stop_at env has_dev p0 tol n j \<noteq> None")
  case False
  then have none: "\<forall>j. 0 \<le> j \<and> j < n \<longrightarrow> stop_at env has_dev p0 tol n j = None" by auto
  from opt_loop_no_stop[OF none] assms show ?thesis
    using none by (simp add: initial_locals_at[where has_dev = has_dev])
next
  case True
  define k where "k = (LEAST j. j < n \<and> stop_at env has_dev p0 tol n j \<noteq> None)"
  from True have k: "k < n \<and> stop_at env has_dev p0 tol n k \<noteq> None"
    unfolding k_def by (rule LeastI_ex)
  then obtain r' where r': "stop_at env has_dev p0 tol n k = Some r'" by auto
  have before: "\<forall>j. 0 \<le> j \<and> j < k \<longrightarrow> stop_at env has_dev p0 tol n j = None"
  proof (intro allI impI)
    fix j assume "0 \<le> j \<and> j < k"
    then have "j < k" by simp
    then have "\<not> (j < n \<and> stop_at env has_dev p0 tol n j \<noteq> None)"
      unfolding k_def by (rule not_less_Least)
    moreover have "j < n" using \<open>j < k\<close> k by simp
    ultimately show "stop_at env has_dev p0 tol n j = None" by simp
  qed
  have "opt_loop env has_dev tol n 0 (locals_at env has_dev p0 n 0)
          = (r', k, locals_at env has_dev p0 n (Suc k))"
    using k by (intro opt_loop_stop [OF before r']) simp_all
  then have "opt_loop env has_dev tol n 0 (initial_locals env p0 n)
          = (r', k, locals_at env has_dev p0 n (Suc k))"
    by (simp only: initial_locals_at [where has_dev = has_dev])
  then have "(r, i, L) = (r', k, locals_at env has_dev p0 n (Suc k))"
    unfolding assms .
  then have "r = r'" and "i = k" and "L = locals_at env has_dev p0 n (Suc k)"
    by blast+
  with k r' before show ?thesis by blast
qed

lemma window_filled:
  assumes "0 < tol" and "tol \<le> int j" and "j < n"
  shows "window tol j (filled f (Suc j) n) = recent f (nat tol) j"
proof -
  let ?m = "nat tol"
  have m: "0 < ?m" "?m \<le> j" using assms by auto
  have len: "length (filled f (Suc j) n) = n" using assms by (simp add: length_filled)
  have lo: "py_bound (int j - tol) n = j - ?m"
    using assms by (auto simp: py_bound_def nat_diff_distrib)
  have hi: "py_bound (int j) n = j"
    using assms by (simp add: py_bound_def)
  have "drop (j - ?m) (filled f (Suc j) n) = map f [j - ?m ..< Suc j] @ replicate (n - Suc j) NaN"
    by (simp add: filled_def drop_map)
  moreover have "take (j - (j - ?m)) (map f [j - ?m ..< Suc j] @ replicate (n - Suc j) NaN) = map f [j - ?m ..< j]"
    using m by (simp add: take_map take_upt)
  ultimately show ?thesis
    by (simp add: window_def py_slice_int_def len lo hi recent_def Let_def)
qed

lemma stop_at_check_at:
  assumes "0 \<le> tol" and "tol \<le> 301" and "j < n"
  shows "stop_at env has_dev p0 tol n j = check_at env has_dev p0 (nat tol) j"
proof (cases "tol = 0 \<or> j \<le> 300")
  case True
  then show ?thesis using assms by (auto simp: stop_at_def early_stop_def check_at_def)
next
  case False
  then have "0 < tol" "tol \<le> int j" using assms by auto
  then have w: "\<And>f. window tol j (filled f (Suc j) n) = recent f (nat tol) j"
    using assms(3) by (rule window_filled)
  show ?thesis
  proof (cases has_dev)
    case True
    then show ?thesis using False assms w
      by (simp add: stop_at_def early_stop_def check_at_def locals_at_def)
  next
    case False
    then show ?thesis using \<open>\<not> (tol = 0 \<or> j \<le> 300)\<close> assms w
      by (simp add: stop_at_def early_stop_def check_at_def locals_at_def)
  qed
qed

text \<open>
  C3, amended: for a tolerance between 0 and 301 the loop stops in the first iteration
  \<open>i\<close> whose test \<open>check_at\<close> fires, with the reason the test gives, and runs
  to \<open>max_iters\<close> with reason \<open>maxiter_stop\<close> if no test fires. The test never
  fires at or before iteration 300 or when the tolerance is 0; otherwise it gives
  \<open>dev_stop\<close> when a dev split exists and the consecutive differences of the dev costs
  of the \<open>tolerance\<close> iterations before iteration \<open>i\<close> (the slice
  \<open>cost_dev[i - tolerance:i]\<close>, which does not hold the cost of iteration \<open>i\<close>
  itself) are all positive, and else \<open>train_stop\<close> when those of the train costs of
  the same iterations are all below \<open>1e-5\<close>.
\<close>

theorem C3_early_stop_rule:
  assumes "0 \<le> tolerance" and "tolerance \<le> 301"
    and "opt_loop env has_dev tolerance n 0 (initial_locals env p0 n) = (reason, i, L)"
  shows "(reason \<noteq> maxiter_stop \<longrightarrow> tolerance \<noteq> 0 \<and> 300 < i) \<and>
         ((reason = maxiter_stop \<and> i = n - 1 \<and>
           (\<forall>j < n. check_at env has_dev p0 (nat tolerance) j = None)) \<or>
          (i < n \<and> check_at env has_dev p0 (nat tolerance) i = Some reason \<and>
           (\<forall>j < i. check_at env has_dev p0 (nat tolerance) j = None)))"
proof -
  from opt_loop_cases [OF assms(3)]
  have c: "(reason = maxiter_stop \<and> i = n - 1 \<and> (\<forall>j < n. stop_at env has_dev p0 tolerance n j = None)) \<or>
         (i < n \<and> stop_at env has_dev p0 tolerance n i = Some reason \<and> 
          (\<forall>j < i. stop_at env has_dev p0 tolerance n j = None))" by blast
  have eq: "\<And>j. j < n \<Longrightarrow> stop_at env has_dev p0 tolerance n j = check_at env has_dev p0 (nat tolerance) j"
    using assms(1,2) by (rule stop_at_check_at)
  from c have main: "(reason = maxiter_stop \<and> i = n - 1 \<and>
           (\<forall>j < n. check_at env has_dev p0 (nat tolerance) j = None)) \<or>
          (i < n \<and> check_at env has_dev p0 (nat tolerance) i = Some reason \<and>
           (\<forall>j < i. check_at env has_dev p0 (nat tolerance) j = None))"
    using eq by (auto simp: less_trans)
  moreover have "reason \<noteq> maxiter_stop \<longrightarrow> tolerance \<noteq> 0 \<and> 300 < i"
    using main assms(1) by (auto simp: check_at_def split: if_splits)
  ultimately show ?thesis by blast
qed

lemma late_state: "state_at late_rise_env p0 k = k"
  by (induction k) (simp_all add: late_rise_env_def)

lemma late_train: "train_cost_at late_rise_env p0 k = Fin (real k)"
  by (simp add: train_cost_at_def late_state) (simp add: late_rise_env_def)

lemma late_params: "params_at late_rise_env p0 k = Suc k"
  by (simp add: params_at_def late_state del: state_at.simps) (simp add: late_rise_env_def)

lemma late_dev: "dev_cost_at late_rise_env p0 k = (if k = 300 then Fin 1 else if k = 301 then Fin 2 else Fin (999 - real k))"
  by (simp add: dev_cost_at_def late_params) (simp add: late_rise_env_def)

lemma upt2: "Suc (Suc a) = b \<Longrightarrow> [a ..< b] = [a, Suc a]"
  by (auto simp: upt_rec)

lemma late_check_301: "check_at late_rise_env True p0 2 301 = None"
  by (simp add: check_at_def recent_def upt2 late_dev late_train np_diff_def all_positive_def all_below_def fl_sub_def)

lemma late_check_302: "check_at late_rise_env True p0 2 302 = Some dev_stop"
  by (simp add: check_at_def recent_def upt2 late_dev late_train np_diff_def all_positive_def all_below_def fl_sub_def)

lemma late_check_early: "j \<le> 300 \<Longrightarrow> check_at late_rise_env True p0 2 j = None"
  by (simp add: check_at_def)

lemma late_latest: "all_positive (np_diff (latest (dev_cost_at late_rise_env p0) 2 301))"
  by (simp add: latest_def upt2 late_dev np_diff_def all_positive_def fl_sub_def)

lemma late_none:
  assumes "j < n" and "j < 302"
  shows "stop_at late_rise_env True p0 2 n j = None"
proof -
  from assms(2) have "j \<le> 300 \<or> j = 301" by auto
  then have "check_at late_rise_env True p0 2 j = None"
    using late_check_301 late_check_early by auto
  then show ?thesis
    using stop_at_check_at [of 2 j n late_rise_env True p0] assms(1) by simp
qed

lemma run302: "opt_loop late_rise_env True 2 302 0 (initial_locals late_rise_env 0 302) = (maxiter_stop, 301, locals_at late_rise_env True 0 302 302)"
proof -
  have "\<forall>j. 0 \<le> j \<and> j < 302 \<longrightarrow> stop_at late_rise_env True 0 2 302 j = None"
    using late_none by blast
  from opt_loop_no_stop[OF this] show ?thesis by (simp add: initial_locals_at[where has_dev=True])
qed

lemma run400: "opt_loop late_rise_env True 2 400 0 (initial_locals late_rise_env 0 400) = (dev_stop, 302, locals_at late_rise_env True 0 400 303)"
proof -
  have 1: "\<forall>j. 0 \<le> j \<and> j < 302 \<longrightarrow> stop_at late_rise_env True 0 2 400 j = None"
    using late_none by auto
  have 2: "stop_at late_rise_env True 0 2 400 302 = Some dev_stop"
    using stop_at_check_at[of 2 302 400 late_rise_env True 0] late_check_302 by simp
  from opt_loop_stop[OF 1 2] show ?thesis by (simp add: initial_locals_at[where has_dev=True])
qed

lemma window_wraps:
  assumes "int i < tol" and "tol \<le> int (length xs)"
  shows "window tol i xs = []"
proof -
  have "py_bound (int i - tol) (length xs) = nat (int i - tol + int (length xs))"
    using assms by (simp add: py_bound_def)
  moreover have "py_bound (int i) (length xs) \<le> i"
    by (simp add: py_bound_def)
  moreover have "i \<le> nat (int i - tol + int (length xs))"
    using assms by linarith
  ultimately have "py_bound (int i) (length xs) - py_bound (int i - tol) (length xs) = 0"
    by simp
  then show ?thesis
    by (simp add: window_def py_slice_int_def Let_def)
qed

lemma flat_dev: "dev_cost_at flat_env p0 k = Fin 0"
  by (simp add: dev_cost_at_def flat_env_def)

lemma flat_wrapped_run:
  "opt_loop flat_env True 500 2000 0 (initial_locals flat_env 0 2000)
     = (dev_stop, 301, locals_at flat_env True 0 2000 302)"
proof -
  have 1: "\<forall>j. 0 \<le> j \<and> j < 301 \<longrightarrow> stop_at flat_env True 0 500 2000 j = None"
    by (simp add: stop_at_def early_stop_def)
  have "window 500 301 (filled (dev_cost_at flat_env 0) 302 2000) = []"
    by (rule window_wraps) (simp_all add: length_filled)
  then have 2: "stop_at flat_env True 0 500 2000 301 = Some dev_stop"
    by (simp add: stop_at_def early_stop_def locals_at_def np_diff_def all_positive_def)
  from opt_loop_stop [OF 1 2] show ?thesis
    by (simp add: initial_locals_at [where has_dev = True])
qed

lemma all_positive_first:
  assumes "all_positive (np_diff (x # y # zs))"
  shows "fl_less (Fin 0) (fl_sub y x)"
  using assms by (simp add: all_positive_def np_diff_def)

lemma flat_not_rising: "\<not> all_positive (np_diff (latest (dev_cost_at flat_env 0) 500 301))"
proof
  assume a: "all_positive (np_diff (latest (dev_cost_at flat_env 0) 500 301))"
  have "latest (dev_cost_at flat_env 0) 500 301 = map (\<lambda>k. Fin 0) [0 ..< 302]"
    by (simp add: latest_def flat_dev)
  also have "[0 ..< 302] = 0 # 1 # [2 ..< 302]"
    by (simp add: upt_conv_Cons)
  finally have "latest (dev_cost_at flat_env 0) 500 301 = Fin 0 # Fin 0 # map (\<lambda>k. Fin 0) [2 ..< 302]"
    by simp
  with a have "fl_less (Fin 0) (fl_sub (Fin 0) (Fin 0))"
    by (simp only: all_positive_first)
  then show False
    by (simp add: fl_sub_def)
qed

text \<open>
  C3, as stated, has the test look at the last \<open>tolerance\<close> recorded iterations, and
  stop with \<open>dev_stop\<close> exactly when the dev costs rose throughout them. Two runs
  with a dev split show that the loop does otherwise.

  In the first, with tolerance 2, the dev costs recorded in iterations 300 and 301 are 1
  and 2: in iteration 301 the differences over the last two recorded iterations are all
  positive. But the loop does not stop there with \<open>dev_stop\<close>: with
  \<open>max_iters = 302\<close> it ends with reason \<open>maxiter_stop\<close>, and with
  \<open>max_iters = 400\<close> it stops one iteration later, in iteration 302.

  In the second, with tolerance 500 and \<open>max_iters = 2000\<close>, the dev cost and the
  train cost are 0 in every iteration, so that no difference of dev costs is positive and
  the rule as stated gives \<open>train_stop\<close>. But in iteration 301 the lower bound
  \<open>i - tolerance = -199\<close> of the slice counts from the end of the array of 2000
  entries, the slice \<open>cost_dev[-199:301]\<close> is empty, and the loop stops with
  \<open>dev_stop\<close>.
\<close>

theorem C3_window_excludes_current_counterexample:
  "all_positive (np_diff (latest (dev_cost_at late_rise_env 0) 2 301)) \<and>
   fst (opt_loop late_rise_env True 2 302 0 (initial_locals late_rise_env 0 302)) = maxiter_stop \<and>
   fst (snd (opt_loop late_rise_env True 2 400 0 (initial_locals late_rise_env 0 400))) = 302 \<and>
   \<not> all_positive (np_diff (latest (dev_cost_at flat_env 0) 500 301)) \<and>
   opt_loop flat_env True 500 2000 0 (initial_locals flat_env 0 2000)
     = (dev_stop, 301, locals_at flat_env True 0 2000 302)"
  by (simp add: late_latest run302 run400 flat_not_rising flat_wrapped_run)

theorem C3_early_stop_rule_witness:
  "opt_loop late_rise_env True 2 400 0 (initial_locals late_rise_env 0 400)
     = (dev_stop, 302, locals_at late_rise_env True 0 400 303) \<and>
   check_at late_rise_env True 0 (nat 2) 302 = Some dev_stop \<and>
   check_at late_rise_env True 0 (nat 2) 301 = None"
proof -
  have 1: "(0::int) \<le> 2" and 2: "(2::int) \<le> 301"
    by simp_all
  from C3_early_stop_rule [OF 1 2 run400]
  have "check_at late_rise_env True 0 (nat 2) 302 = Some dev_stop \<and>
        (\<forall>j < 302. check_at late_rise_env True 0 (nat 2) j = None)"
    by simp
  then show ?thesis
    using run400 by simp
qed

lemma fl_less_trans: "fl_less a b \<Longrightarrow> fl_less b c \<Longrightarrow> fl_less a c"
  by (cases a; cases b; cases c) auto

lemma fl_less_NaN_right [simp]: "\<not> fl_less x NaN"
  by (cases x) auto

lemma fl_less_irrefl [simp]: "\<not> fl_less x x"
  by (cases x) auto

lemma argmin_from_least:
  assumes "k \<le> length ys" and "b0 < k" and "v = ys ! b0"
    and "\<forall>j < k. \<not> fl_less (ys ! j) v"
  shows "argmin_from (drop k ys) k b0 v < length ys \<and>
         (\<forall>j < length ys. \<not> fl_less (ys ! j) (ys ! argmin_from (drop k ys) k b0 v))"
  using assms
proof (induction "length ys - k" arbitrary: k b0 v)
  case 0
  then have "drop k ys = []" by simp
  with 0 show ?case by auto
next
  case (Suc d)
  then have lt: "k < length ys" by simp
  then have dr: "drop k ys = ys ! k # drop (Suc k) ys"
    by (simp add: Cons_nth_drop_Suc)
  show ?case
  proof (cases "v = NaN")
    case True
    with Suc.prems dr show ?thesis by simp
  next
    case False
    show ?thesis
    proof (cases "ys ! k = NaN \<or> fl_less (ys ! k) v")
      case True
      have inv: "\<forall>j < Suc k. \<not> fl_less (ys ! j) (ys ! k)"
      proof (intro allI impI)
        fix j assume "j < Suc k"
        show "\<not> fl_less (ys ! j) (ys ! k)"
        proof (cases "j = k")
          case True then show ?thesis by simp
        next
          case False
          with \<open>j < Suc k\<close> have "j < k" by simp
          with Suc.prems(4) have n: "\<not> fl_less (ys ! j) v" by simp
          show ?thesis
          proof
            assume a: "fl_less (ys ! j) (ys ! k)"
            then have "ys ! k \<noteq> NaN" by auto
            with True have "fl_less (ys ! k) v" by simp
            with a have "fl_less (ys ! j) v" by (rule fl_less_trans)
            with n show False by simp
          qed
        qed
      qed
      have "argmin_from (drop (Suc k) ys) (Suc k) k (ys ! k) < length ys \<and>
         (\<forall>j < length ys. \<not> fl_less (ys ! j) (ys ! argmin_from (drop (Suc k) ys) (Suc k) k (ys ! k)))"
        using Suc.hyps(2) lt inv by (intro Suc.hyps(1)) auto
      with True False dr show ?thesis by simp
    next
      case nb: False
      have inv: "\<forall>j < Suc k. \<not> fl_less (ys ! j) v"
        using Suc.prems(4) nb by (auto simp: less_Suc_eq)
      have "argmin_from (drop (Suc k) ys) (Suc k) b0 v < length ys \<and>
         (\<forall>j < length ys. \<not> fl_less (ys ! j) (ys ! argmin_from (drop (Suc k) ys) (Suc k) b0 v))"
        using Suc.hyps(2) lt inv Suc.prems(2,3) by (intro Suc.hyps(1)) auto
      with nb False dr show ?thesis by simp
    qed
  qed
qed

lemma np_argmin_least:
  assumes "np_argmin xs = Inr b"
  shows "b < length xs \<and> (\<forall>j < length xs. \<not> fl_less (xs ! j) (xs ! b))"
proof (cases xs)
  case Nil
  with assms show ?thesis by (simp add: np_argmin_def)
next
  case (Cons x rest)
  have "argmin_from (drop 1 xs) 1 0 (xs ! 0) < length xs \<and>
         (\<forall>j < length xs. \<not> fl_less (xs ! j) (xs ! argmin_from (drop 1 xs) 1 0 (xs ! 0)))"
    by (rule argmin_from_least) (simp_all add: Cons)
  moreover have "b = argmin_from (drop 1 xs) 1 0 (xs ! 0)"
    using assms Cons by (simp add: np_argmin_def)
  ultimately show ?thesis by simp
qed

lemma py_index_nat: "py_index xs (int b) = Inr v \<Longrightarrow> b < length xs \<and> v = xs ! b"
  by (auto simp: py_index_def Let_def split: if_splits)

text \<open>
  C5: with the policy \<open>best_dev_cost\<close>, a run that returns gives back the snapshot
  at an index \<open>b\<close> of the retained trace at which the recorded dev cost is least: no
  index of the trace has a strictly smaller dev cost.
\<close>

theorem C5_best_dev_cost_is_least:
  assumes "optimize env has_dev p0 n metric tolerance ''best_dev_cost'' = Inr res"
  shows "\<exists>b < length (kept_cost_dev res).
           best res = int b \<and> returned res = all_params res ! b \<and> b < length (all_params res) \<and>
           (\<forall>j < length (kept_cost_dev res). \<not> fl_less (kept_cost_dev res ! j) (kept_cost_dev res ! b))"
proof -
  obtain reason i L where run: "opt_loop env has_dev tolerance n 0 (initial_locals env p0 n) = (reason, i, L)"
    by (cases "opt_loop env has_dev tolerance n 0 (initial_locals env p0 n)") auto
  from assms run obtain b params m where
    sel: "np_argmin (take (i + 1) (cost_dev L)) = Inr b" and
    par: "py_index (params_list L) (int b) = Inr params" and
    res: "res = \<lparr>returned = params,
                              kept_cost_train = take (i + 1) (cost_train L),
                              kept_cost_dev = take (i + 1) (cost_dev L),
                              kept_metric_train = take (i + 1) (metric_train L),
                              kept_metric_dev = take (i + 1) (metric_dev L),
                              metric_dev_opt = m,
                              all_params = take (i + 1) (params_list L),
                              stop = reason, last_i = i, best = int b,
                              executed = length (params_list L)\<rparr>"
    by (auto simp: optimize_def select_best_def as_int_def split: sum.splits)
  have kd: "kept_cost_dev res = take (i + 1) (cost_dev L)" and bb: "best res = int b"
    by (simp_all add: res)
  from np_argmin_least [OF sel] have b: "b < length (kept_cost_dev res)"
    and least: "\<forall>j < length (kept_cost_dev res). \<not> fl_less (kept_cost_dev res ! j) (kept_cost_dev res ! b)"
    unfolding kd by blast+
  from py_index_nat [OF par] have p: "b < length (params_list L)" "params = params_list L ! b" by simp_all
  from b have "b < i + 1" by (simp add: kd)
  with p have "returned res = all_params res ! b" "b < length (all_params res)" by (simp_all add: res)
  with b least bb show ?thesis by blast
qed

lemma optimize_run:
  assumes "optimize env has_dev p0 n metric tolerance return_model = Inr res"
  shows "\<exists>L. opt_loop env has_dev tolerance n 0 (initial_locals env p0 n) = (stop res, last_i res, L) \<and>
           kept_cost_train res = take (last_i res + 1) (cost_train L) \<and>
           kept_cost_dev res = take (last_i res + 1) (cost_dev L) \<and>
           kept_metric_train res = take (last_i res + 1) (metric_train L) \<and>
           kept_metric_dev res = take (last_i res + 1) (metric_dev L) \<and>
           all_params res = take (last_i res + 1) (params_list L) \<and>
           executed res = length (params_list L) \<and>
           py_index (params_list L) (best res) = Inr (returned res) \<and>
           select_best return_model metric (stop res) tolerance (last_i res) L = Inr (best res)"
proof -
  obtain reason i L where run: "opt_loop env has_dev tolerance n 0 (initial_locals env p0 n) = (reason, i, L)"
    by (cases "opt_loop env has_dev tolerance n 0 (initial_locals env p0 n)") auto
  with assms show ?thesis
    by (auto simp: optimize_def split: sum.splits)
qed

lemma py_index_length: "py_index xs k = Inr v \<Longrightarrow> 0 < length xs"
  by (auto simp: py_index_def Let_def split: if_splits)

lemma np_diff_nth:
  assumes "all_below (np_diff xs)" and "Suc k < length xs"
  shows "fl_less (fl_sub (xs ! Suc k) (xs ! k)) (Fin (1 / 10 ^ 5))"
proof -
  from assms(2) have k: "k < length (np_diff xs)"
    by (simp add: np_diff_def)
  from assms(2) have "np_diff xs ! k = fl_sub (xs ! Suc k) (xs ! k)"
    by (simp add: np_diff_def nth_tl)
  moreover from assms(1) k have "fl_less (np_diff xs ! k) (Fin (1 / 10 ^ 5))"
    by (simp add: all_below_def list_all_length)
  ultimately show ?thesis
    by simp
qed

lemma recent_deltas:
  assumes "all_below (np_diff (recent f m i))" and "i - m \<le> k" and "Suc k < i"
  shows "fl_less (fl_sub (f (Suc k)) (f k)) (Fin (1 / 10 ^ 5))"
proof -
  let ?j = "k - (i - m)"
  have len: "length (recent f m i) = i - (i - m)"
    by (simp add: recent_def)
  have j: "Suc ?j < length (recent f m i)"
    using assms(2,3) by (simp add: len)
  have a: "recent f m i ! ?j = f k"
    using assms(2,3) j by (simp add: recent_def)
  have b: "recent f m i ! Suc ?j = f (Suc k)"
    using assms(2,3) j by (simp add: recent_def)
  from np_diff_nth [OF assms(1) j] show ?thesis
    by (simp only: a b)
qed

lemma kept_trace:
  assumes "Suc i \<le> n"
  shows "take (i + 1) (filled f (Suc i) n) = map f [0 ..< Suc i]"
  by (simp add: filled_def)

lemma np_diff_map_upt:
  "np_diff (map f [a ..< b]) = map (\<lambda>k. fl_sub (f (Suc k)) (f k)) [a ..< b - 1]"
  by (rule nth_equalityI) (auto simp: np_diff_def nth_tl)

lemma late_deltas:
  "np_diff (map (train_cost_at late_rise_env p0) [0 ..< 302]) = replicate 301 (Fin 1)"
proof -
  have "np_diff (map (train_cost_at late_rise_env p0) [0 ..< 302])
          = map (\<lambda>k. Fin 1) [0 ..< 301]"
    by (simp only: np_diff_map_upt) (simp add: late_train fl_sub_def del: upt_Suc)
  also have "\<dots> = replicate 301 (Fin 1)"
    by (simp add: map_replicate_const del: upt_Suc)
  finally show ?thesis .
qed

lemma late_short_run:
  "opt_loop late_rise_env False 1 400 0 (initial_locals late_rise_env 0 400)
     = (train_stop, 301, locals_at late_rise_env False 0 400 302)"
proof -
  have 1: "\<forall>j. 0 \<le> j \<and> j < 301 \<longrightarrow> stop_at late_rise_env False 0 1 400 j = None"
    by (simp add: stop_at_def early_stop_def)
  have "check_at late_rise_env False 0 1 301 = Some train_stop"
    by (simp add: check_at_def recent_def np_diff_def all_below_def upt_rec)
  then have 2: "stop_at late_rise_env False 0 1 400 301 = Some train_stop"
    using stop_at_check_at [of 1 301 400 late_rise_env False 0] by simp
  from opt_loop_stop [OF 1 2] show ?thesis
    by (simp add: initial_locals_at [where has_dev = False])
qed

lemma late_wrapped_run:
  "opt_loop late_rise_env False 500 2000 0 (initial_locals late_rise_env 0 2000)
     = (train_stop, 301, locals_at late_rise_env False 0 2000 302)"
proof -
  have 1: "\<forall>j. 0 \<le> j \<and> j < 301 \<longrightarrow> stop_at late_rise_env False 0 500 2000 j = None"
    by (simp add: stop_at_def early_stop_def)
  have "window 500 301 (filled (train_cost_at late_rise_env 0) 302 2000) = []"
    by (rule window_wraps) (simp_all add: length_filled)
  then have 2: "stop_at late_rise_env False 0 500 2000 301 = Some train_stop"
    by (simp add: stop_at_def early_stop_def locals_at_def np_diff_def all_below_def)
  from opt_loop_stop [OF 1 2] show ?thesis
    by (simp add: initial_locals_at [where has_dev = False])
qed

lemma late_kept:
  "np_diff (take 302 (filled (train_cost_at late_rise_env 0) 302 n)) = replicate 301 (Fin 1)"
proof -
  have "take 302 (filled (train_cost_at late_rise_env 0) 302 n)
          = map (train_cost_at late_rise_env 0) [0 ..< 302]"
    by (simp add: filled_def del: upt_Suc)
  then show ?thesis
    by (simp only: late_deltas)
qed

lemma late_short_optimize:
  "\<exists>res. optimize late_rise_env False 0 400 ''corrcoef'' 1 ''last'' = Inr res \<and>
         stop res = train_stop \<and> last_i res = 301 \<and>
         np_diff (kept_cost_train res) = replicate 301 (Fin 1)"
  by (simp add: optimize_def late_short_run select_best_def py_index_def Let_def locals_at_def
        late_kept)

lemma late_wrapped_optimize:
  "\<exists>res. optimize late_rise_env False 0 2000 ''corrcoef'' 500 ''last'' = Inr res \<and>
         stop res = train_stop \<and> last_i res = 301 \<and>
         np_diff (kept_cost_train res) = replicate 301 (Fin 1)"
  by (simp add: optimize_def late_wrapped_run select_best_def py_index_def Let_def locals_at_def
        late_kept)

text \<open>
  C4, as stated, has the last \<open>tolerance\<close> train-cost deltas below \<open>1e-5\<close>
  whenever a run ends with \<open>train_stop\<close>. In two runs without a dev split the train
  cost of iteration \<open>k\<close> is \<open>k\<close>, so that every delta of the retained trace is 1, and
  both end with \<open>train_stop\<close> in iteration 301. With tolerance 1 the tested slice
  \<open>cost_train[300:301]\<close> has one entry and no difference; with tolerance 500 and
  \<open>max_iters = 2000\<close> the lower bound of \<open>cost_train[-199:301]\<close> counts from the end
  of the array and the slice is empty.
\<close>

theorem C4_train_stop_deltas_counterexample:
  "(\<exists>res. optimize late_rise_env False 0 400 ''corrcoef'' 1 ''last'' = Inr res \<and>
          stop res = train_stop \<and> last_i res = 301 \<and>
          np_diff (kept_cost_train res) = replicate 301 (Fin 1)) \<and>
   (\<exists>res. optimize late_rise_env False 0 2000 ''corrcoef'' 500 ''last'' = Inr res \<and>
          stop res = train_stop \<and> last_i res = 301 \<and>
          np_diff (kept_cost_train res) = replicate 301 (Fin 1)) \<and>
   \<not> fl_less (Fin 1) (Fin (1 / 10 ^ 5))"
  using late_short_optimize late_wrapped_optimize by simp

text \<open>
  C4, amended: in every run that returns, each retained trace (train cost, dev cost, the
  two metrics, the parameter snapshots) has one entry per executed iteration, that is
  \<open>i + 1\<close> entries, and at most \<open>max_iters\<close>; the retained train costs and
  snapshots are those of the iterations \<open>0, \<dots>, i\<close> in order. If the run ended with
  \<open>train_stop\<close> in iteration \<open>i\<close>, then the tolerance is not 0, \<open>i\<close> is above
  300 and, when \<open>tolerance \<le> i\<close>, the differences of consecutive train costs within
  the slice \<open>cost_train[i - tolerance:i]\<close> are all below \<open>1e-5\<close>: these are the
  \<open>tolerance - 1\<close> signed differences between the costs of the \<open>tolerance\<close>
  iterations before iteration \<open>i\<close>, and none of them involves the cost recorded in
  iteration \<open>i\<close> itself.
\<close>

theorem C4_trace_lengths_and_train_stop:
  assumes "optimize env has_dev p0 n metric tolerance return_model = Inr res"
  shows "length (kept_cost_train res) = executed res \<and>
         length (kept_cost_dev res) = executed res \<and>
         length (kept_metric_train res) = executed res \<and>
         length (kept_metric_dev res) = executed res \<and>
         length (all_params res) = executed res \<and>
         executed res = last_i res + 1 \<and>
         executed res \<le> n \<and>
         kept_cost_train res = map (train_cost_at env p0) [0 ..< executed res] \<and>
         all_params res = map (params_at env p0) [0 ..< executed res] \<and>
         (stop res = train_stop \<longrightarrow>
            tolerance \<noteq> 0 \<and> 300 < last_i res \<and>
            (tolerance \<le> int (last_i res) \<longrightarrow>
               (\<forall>k. int (last_i res) - tolerance \<le> int k \<and> Suc k < last_i res \<longrightarrow>
                  fl_less (fl_sub (kept_cost_train res ! Suc k) (kept_cost_train res ! k))
                    (Fin (1 / 10 ^ 5)))))"
proof -
  from optimize_run [OF assms] obtain L where
    run: "opt_loop env has_dev tolerance n 0 (initial_locals env p0 n) = (stop res, last_i res, L)" and
    kept: "kept_cost_train res = take (last_i res + 1) (cost_train L)"
          "kept_cost_dev res = take (last_i res + 1) (cost_dev L)"
          "kept_metric_train res = take (last_i res + 1) (metric_train L)"
          "kept_metric_dev res = take (last_i res + 1) (metric_dev L)"
          "all_params res = take (last_i res + 1) (params_list L)"
          "executed res = length (params_list L)" and
    idx: "py_index (params_list L) (best res) = Inr (returned res)"
    by blast
  from idx have nonempty: "0 < length (params_list L)" by (rule py_index_length)
  let ?i = "last_i res"
  let ?f = "train_cost_at env p0"
  from opt_loop_cases [OF run] have
    c: "(stop res = maxiter_stop \<and> ?i = n - 1 \<and> L = locals_at env has_dev p0 n n) \<or>
        (?i < n \<and> stop_at env has_dev p0 tolerance n ?i = Some (stop res) \<and> L = locals_at env has_dev p0 n (Suc ?i))"
    by blast
  have L: "L = locals_at env has_dev p0 n (Suc ?i)" and le: "Suc ?i \<le> n"
  proof -
    from c show "L = locals_at env has_dev p0 n (Suc ?i)"
    proof
      assume a: "stop res = maxiter_stop \<and> ?i = n - 1 \<and> L = locals_at env has_dev p0 n n"
      with nonempty have "0 < n" by (simp add: locals_at_def)
      with a show ?thesis by simp
    qed simp
    from c show "Suc ?i \<le> n"
    proof
      assume a: "stop res = maxiter_stop \<and> ?i = n - 1 \<and> L = locals_at env has_dev p0 n n"
      with nonempty have "0 < n" by (simp add: locals_at_def)
      with a show ?thesis by simp
    qed simp
  qed
  have pl: "length (params_list L) = Suc ?i" by (simp add: L locals_at_def)
  have ex: "executed res = Suc ?i" by (simp add: kept pl)
  have lens: "length (cost_train L) = n" "length (cost_dev L) = n" "length (metric_train L) = n" "length (metric_dev L) = n"
    using le by (simp_all add: L locals_at_def length_filled)
  have 1: "length (kept_cost_train res) = executed res" "length (kept_cost_dev res) = executed res"
     "length (kept_metric_train res) = executed res" "length (kept_metric_dev res) = executed res"
     "length (all_params res) = executed res"
    using le by (simp_all add: kept(1-5) lens ex pl)
  have ct: "cost_train L = filled ?f (Suc ?i) n"
    by (simp add: L locals_at_def)
  have tr: "kept_cost_train res = map ?f [0 ..< Suc ?i]"
    unfolding kept(1) ct using le by (rule kept_trace)
  have ps: "all_params res = map (params_at env p0) [0 ..< Suc ?i]"
    by (simp add: kept(5) L locals_at_def)
  have nth: "\<And>k. k \<le> ?i \<Longrightarrow> kept_cost_train res ! k = ?f k"
  proof -
    fix k assume "k \<le> ?i"
    then have "k < length [0 ..< Suc ?i]" by simp
    then have "map ?f [0 ..< Suc ?i] ! k = ?f ([0 ..< Suc ?i] ! k)" by (rule nth_map)
    also have "[0 ..< Suc ?i] ! k = k" using \<open>k \<le> ?i\<close> by (simp del: upt_Suc)
    finally show "kept_cost_train res ! k = ?f k" by (simp only: tr)
  qed
  have win: "stop res = train_stop \<longrightarrow>
            tolerance \<noteq> 0 \<and> 300 < ?i \<and>
            (tolerance \<le> int ?i \<longrightarrow>
               (\<forall>k. int ?i - tolerance \<le> int k \<and> Suc k < ?i \<longrightarrow>
                  fl_less (fl_sub (kept_cost_train res ! Suc k) (kept_cost_train res ! k))
                    (Fin (1 / 10 ^ 5))))"
  proof (intro impI conjI allI)
    assume t: "stop res = train_stop"
    with c have s: "stop_at env has_dev p0 tolerance n ?i = Some train_stop" and lt: "?i < n"
      by auto
    from s show "tolerance \<noteq> 0" and "300 < ?i"
      by (auto simp: stop_at_def early_stop_def split: if_splits)
    from s have w: "all_below (np_diff (window tolerance ?i (filled ?f (Suc ?i) n)))"
      by (auto simp: stop_at_def early_stop_def locals_at_def split: if_splits)
    fix k
    assume tol: "tolerance \<le> int ?i" and k: "int ?i - tolerance \<le> int k \<and> Suc k < ?i"
    from k have pos: "0 < tolerance" by linarith
    from window_filled [OF pos tol lt] w
    have "all_below (np_diff (recent ?f (nat tolerance) ?i))" by simp
    moreover have "?i - nat tolerance \<le> k" using k pos by linarith
    moreover have "Suc k < ?i" using k by simp
    ultimately have "fl_less (fl_sub (?f (Suc k)) (?f k)) (Fin (1 / 10 ^ 5))"
      by (rule recent_deltas)
    moreover have "kept_cost_train res ! Suc k = ?f (Suc k)" using k by (intro nth) simp
    moreover have "kept_cost_train res ! k = ?f k" using k by (intro nth) simp
    ultimately show "fl_less (fl_sub (kept_cost_train res ! Suc k) (kept_cost_train res ! k)) (Fin (1 / 10 ^ 5))"
      by (simp only:)
  qed
  have tr': "kept_cost_train res = map ?f [0 ..< executed res]"
    unfolding ex by (rule tr)
  have ps': "all_params res = map (params_at env p0) [0 ..< executed res]"
    unfolding ex by (rule ps)
  have exi: "executed res = ?i + 1" using ex by simp
  have exn: "executed res \<le> n" using ex le by simp
  from 1 exi exn tr' ps' win show ?thesis
    by blast
qed

lemma stop_at_early: "j \<le> 300 \<Longrightarrow> stop_at env has_dev p0 tol n j = None"
  by (simp add: stop_at_def early_stop_def)

lemma flat_state: "state_at flat_env p0 k = k"
  by (induction k) (simp_all add: flat_env_def)

lemma flat_train: "train_cost_at flat_env p0 k = Fin 0"
  by (simp add: train_cost_at_def flat_env_def)

lemma flat_params: "params_at flat_env p0 k = Suc k"
  by (simp add: params_at_def flat_state del: state_at.simps) (simp add: flat_env_def)

lemma flat_run:
  "opt_loop flat_env False 2 400 0 (initial_locals flat_env 0 400)
     = (train_stop, 301, locals_at flat_env False 0 400 302)"
proof -
  have 1: "\<forall>j. 0 \<le> j \<and> j < 301 \<longrightarrow> stop_at flat_env False 0 2 400 j = None"
    by (simp add: stop_at_early)
  have "check_at flat_env False 0 2 301 = Some train_stop"
    by (simp add: check_at_def recent_def upt2 flat_train np_diff_def all_below_def fl_sub_def)
  then have 2: "stop_at flat_env False 0 2 400 301 = Some train_stop"
    using stop_at_check_at [of 2 301 400 flat_env False 0] by simp
  from opt_loop_stop [OF 1 2] show ?thesis
    by (simp add: initial_locals_at [where has_dev = False])
qed

lemma flat_optimize:
  "\<exists>res. optimize flat_env False 0 400 ''corrcoef'' 2 ''last'' = Inr res \<and>
         stop res = train_stop \<and> last_i res = 301 \<and> returned res = 302"
  by (simp add: optimize_def flat_run select_best_def py_index_def locals_at_def Let_def
        flat_params)

theorem C4_trace_lengths_witness:
  "\<exists>res. optimize flat_env False 0 400 ''corrcoef'' 2 ''last'' = Inr res \<and>
         stop res = train_stop \<and> last_i res = 301 \<and>
         length (kept_cost_train res) = executed res \<and>
         length (all_params res) = executed res \<and>
         executed res = last_i res + 1 \<and>
         kept_cost_train res = map (train_cost_at flat_env 0) [0 ..< executed res] \<and>
         fl_less (fl_sub (kept_cost_train res ! Suc 299) (kept_cost_train res ! 299))
           (Fin (1 / 10 ^ 5))"
proof -
  from flat_optimize obtain res where
    run: "optimize flat_env False 0 400 ''corrcoef'' 2 ''last'' = Inr res" and
    reason: "stop res = train_stop" and i: "last_i res = 301"
    by blast
  note c4 = C4_trace_lengths_and_train_stop [OF run]
  from c4 have lens: "length (kept_cost_train res) = executed res \<and>
        length (all_params res) = executed res \<and>
        executed res = last_i res + 1 \<and>
        kept_cost_train res = map (train_cost_at flat_env 0) [0 ..< executed res]"
    by blast
  from c4 reason have q: "(2::int) \<le> int (last_i res) \<longrightarrow>
       (\<forall>k. int (last_i res) - 2 \<le> int k \<and> Suc k < last_i res \<longrightarrow>
          fl_less (fl_sub (kept_cost_train res ! Suc k) (kept_cost_train res ! k))
            (Fin (1 / 10 ^ 5)))"
    by blast
  have "(2::int) \<le> int (last_i res)"
    using i by simp
  with q have "\<forall>k. int (last_i res) - 2 \<le> int k \<and> Suc k < last_i res \<longrightarrow>
          fl_less (fl_sub (kept_cost_train res ! Suc k) (kept_cost_train res ! k))
            (Fin (1 / 10 ^ 5))"
    by blast
  moreover have "int (last_i res) - 2 \<le> int 299 \<and> Suc 299 < last_i res"
    using i by simp
  ultimately have "fl_less (fl_sub (kept_cost_train res ! Suc 299) (kept_cost_train res ! 299))
            (Fin (1 / 10 ^ 5))"
    by blast
  with run reason i lens show ?thesis
    by blast
qed

lemma valley_state: "state_at valley_env p0 k = k"
  by (induction k) (simp_all add: valley_env_def)

lemma valley_params: "params_at valley_env p0 k = Suc k"
  by (simp add: params_at_def valley_state del: state_at.simps) (simp add: valley_env_def)

lemma valley_dev: "dev_cost_at valley_env p0 k = Fin ((real k - 1) * (real k - 1))"
  by (simp add: dev_cost_at_def valley_params) (simp add: valley_env_def)

lemma valley_run:
  "opt_loop valley_env True 10 3 0 (initial_locals valley_env 0 3)
     = (maxiter_stop, 2, locals_at valley_env True 0 3 3)"
proof -
  have "\<forall>j. 0 \<le> j \<and> j < 3 \<longrightarrow> stop_at valley_env True 0 10 3 j = None"
    by (simp add: stop_at_early)
  from opt_loop_no_stop [OF this] show ?thesis
    by (simp add: initial_locals_at [where has_dev = True])
qed

lemma upt3: "[0 ..< 3] = [0, 1, 2]"
  by (simp add: upt_rec numeral_3_eq_3)

lemma valley_optimize:
  "\<exists>res. optimize valley_env True 0 3 ''corrcoef'' 10 ''best_dev_cost'' = Inr res \<and>
         kept_cost_dev res = [Fin 1, Fin 0, Fin 1] \<and> best res = 1 \<and> returned res = 2"
  by (simp add: optimize_def valley_run select_best_def py_index_def locals_at_def Let_def
        filled_def upt3 valley_dev valley_params np_argmin_def as_int_def)

theorem C5_best_dev_cost_witness:
  "\<exists>res. optimize valley_env True 0 3 ''corrcoef'' 10 ''best_dev_cost'' = Inr res \<and>
         kept_cost_dev res = [Fin 1, Fin 0, Fin 1] \<and> best res = 1 \<and> returned res = 2 \<and>
         (\<exists>b < length (kept_cost_dev res).
            best res = int b \<and> returned res = all_params res ! b \<and>
            (\<forall>j < length (kept_cost_dev res).
               \<not> fl_less (kept_cost_dev res ! j) (kept_cost_dev res ! b)))"
proof -
  from valley_optimize obtain res where
    run: "optimize valley_env True 0 3 ''corrcoef'' 10 ''best_dev_cost'' = Inr res" and
    vals: "kept_cost_dev res = [Fin 1, Fin 0, Fin 1]" "best res = 1" "returned res = 2"
    by blast
  from C5_best_dev_cost_is_least [OF run] run vals show ?thesis
    by blast
qed

subsection \<open>Fitting without a dev response\<close>

lemma no_dev_never_dev_stop:
  assumes "opt_loop env False tol n 0 (initial_locals env p0 n) = (reason, i, L)"
  shows "reason \<noteq> dev_stop"
proof -
  from opt_loop_cases [OF assms]
  have "reason = maxiter_stop \<or> stop_at env False p0 tol n i = Some reason"
    by blast
  then show ?thesis
    by (auto simp: stop_at_def early_stop_def split: if_splits)
qed

lemma optimize_last_without_dev:
  assumes "optimize env False p0 n metric tol ''last'' = Inr res"
  shows "best res = int (last_i res) \<and> returned res = last (all_params res)"
proof -
  from optimize_run [OF assms] obtain L where
    run: "opt_loop env False tol n 0 (initial_locals env p0 n) = (stop res, last_i res, L)" and
    ap: "all_params res = take (last_i res + 1) (params_list L)" and
    idx: "py_index (params_list L) (best res) = Inr (returned res)" and
    sel: "select_best ''last'' metric (stop res) tol (last_i res) L = Inr (best res)"
    by blast
  from run have "stop res \<noteq> dev_stop"
    by (rule no_dev_never_dev_stop)
  with sel have b: "best res = int (last_i res)"
    by (simp add: select_best_def)
  with idx have lt: "last_i res < length (params_list L)"
    and r: "returned res = params_list L ! last_i res"
    by (auto dest: py_index_nat)
  from lt have "all_params res \<noteq> []" and "length (all_params res) = last_i res + 1"
    by (auto simp: ap)
  then have "last (all_params res) = all_params res ! last_i res"
    by (simp add: last_conv_nth)
  with r b show ?thesis
    by (simp add: ap)
qed

lemma fit_responses_frame:
  assumes "fit_responses np y st = Inr st1" and "\<not> supplies_dev y"
  shows "(''dev'' \<in> dom (self_y st1)) = (''dev'' \<in> dom (self_y st))"
  using assms
  by (auto simp: fit_responses_def supplies_dev_def Let_def lookup_def
           split: fit_y.splits if_splits sum.splits option.splits)

lemma fit_policy_replaced:
  "''dev'' \<notin> dom (self_y st) \<Longrightarrow>
   fit np env_of y n metric tol return_model st = fit np env_of y n metric tol ''last'' st"
  by (simp add: fit_def)

lemma rising_state: "state_at (rising_env st) p0 k = k"
  by (induction k) (simp_all add: rising_env_def)

lemma rising_train: "train_cost_at (rising_env st) p0 k = Fin (real k)"
  by (simp add: train_cost_at_def rising_state) (simp add: rising_env_def)

lemma rising_params: "params_at (rising_env st) p0 k = counting_params (Suc k)"
  by (simp add: params_at_def rising_state del: state_at.simps) (simp add: rising_env_def)

lemma rising_dev: "dev_cost_at (rising_env st) p0 k = Fin (real (Suc k))"
  by (simp add: dev_cost_at_def rising_params) (simp add: rising_env_def counting_params_def)

lemma rising_run:
  "opt_loop (rising_env st) True 2 400 0 (initial_locals (rising_env st) p0 400)
     = (dev_stop, 301, locals_at (rising_env st) True p0 400 302)"
proof -
  have 1: "\<forall>j. 0 \<le> j \<and> j < 301 \<longrightarrow> stop_at (rising_env st) True p0 2 400 j = None"
    by (simp add: stop_at_early)
  have "check_at (rising_env st) True p0 2 301 = Some dev_stop"
    by (simp add: check_at_def recent_def upt2 rising_dev np_diff_def all_positive_def fl_sub_def)
  then have 2: "stop_at (rising_env st) True p0 2 400 301 = Some dev_stop"
    using stop_at_check_at [of 2 301 400 "rising_env st" True p0] by simp
  from opt_loop_stop [OF 1 2] show ?thesis
    by (simp add: initial_locals_at [where has_dev = True])
qed

lemma last_map_upt: "0 < n \<Longrightarrow> last (map f [0 ..< n]) = f (n - 1)"
  by (simp add: last_conv_nth)

lemma rising_optimize:
  "\<exists>res. optimize (rising_env st) True p0 400 ''corrcoef'' 2 ''last'' = Inr res \<and>
         stop res = dev_stop \<and> last_i res = 301 \<and> best res = 299 \<and>
         returned res = counting_params 300 \<and> last (all_params res) = counting_params 302"
  by (simp add: optimize_def rising_run select_best_def py_index_def locals_at_def Let_def
        rising_params last_map_upt length_filled)

text \<open>
  C10, as stated: on a model without a dev response, \<open>fit\<close> always returns the final
  executed iterate. The example model has no responses. The call
  \<open>fit(y={'train': ..., 'dev': ...}, num_iters=400, tolerance=2)\<close> replaces the policy
  by \<open>last\<close> (the test of \<open>self.y\<close> comes before the responses are stored), then
  optimises with the dev response it was given, stops in iteration 301 with reason
  \<open>dev_stop\<close>, and returns the snapshot of iteration 299, not that of iteration 301.
\<close>

theorem C10_dev_stop_returns_earlier_iterate_counterexample:
  "''dev'' \<notin> dom (self_y initialised_model) \<and>
   fit_summary (fit list_np rising_env train_and_dev 400 ''corrcoef'' 2 ''best_dev_cost''
                  initialised_model) = Inr (dev_stop, 301, 299) \<and>
   fit_returned (fit list_np rising_env train_and_dev 400 ''corrcoef'' 2 ''best_dev_cost''
                   initialised_model) = Inr (counting_params 300) \<and>
   fit_final_iterate (fit list_np rising_env train_and_dev 400 ''corrcoef'' 2 ''best_dev_cost''
                        initialised_model) = Inr (counting_params 302) \<and>
   counting_params 300 \<noteq> counting_params 302"
proof -
  have nodev: "''dev'' \<notin> dom (self_y initialised_model)"
    by (simp add: initialised_model_def new_glm_def)
  obtain st1 where st1: "fit_responses list_np train_and_dev initialised_model = Inr st1"
    and dev: "''dev'' \<in> dom (self_y st1)" and p0: "self_p0 st1 = Some (counting_params 0)"
    by (simp add: fit_responses_def train_and_dev_def initialised_model_def new_glm_def
          lookup_def list_np_def)
  from rising_optimize [of st1 "counting_params 0"] obtain res where
    res: "optimize (rising_env st1) True (counting_params 0) 400 ''corrcoef'' 2 ''last'' = Inr res"
    and vals: "stop res = dev_stop" "last_i res = 301" "best res = 299"
      "returned res = counting_params 300" "last (all_params res) = counting_params 302"
    by blast
  have "fit list_np rising_env train_and_dev 400 ''corrcoef'' 2 ''best_dev_cost'' initialised_model
          = Inr (st1\<lparr>self_p := (self_p st1)(''opt'' \<mapsto> returned res)\<rparr>, res)"
    using nodev st1 dev p0 res by (simp add: fit_def)
  moreover have "counting_params 300 \<noteq> counting_params 302"
    by (auto simp: counting_params_def dest: map_upd_eqD1)
  ultimately show ?thesis
    using nodev vals by (simp add: fit_summary_def fit_returned_def fit_final_iterate_def)
qed

text \<open>
  C10, amended: on a model without a dev response the requested policy is replaced by
  \<open>last\<close>, whatever it was; and if the call supplies no dev response either, the
  parameters returned (and stored as \<open>self.p['opt']\<close>) are those of the final executed
  iterate.
\<close>

theorem C10_last_iterate_without_dev:
  assumes "''dev'' \<notin> dom (self_y st)"
    and "\<not> supplies_dev y"
    and "fit np env_of y n metric tol return_model st = Inr (st', res)"
  shows "fit np env_of y n metric tol return_model st = fit np env_of y n metric tol ''last'' st \<and>
         best res = int (last_i res) \<and>
         returned res = last (all_params res) \<and>
         self_p st' ''opt'' = Some (returned res)"
proof -
  obtain st1 where st1: "fit_responses np y st = Inr st1"
    using assms(3) by (cases "fit_responses np y st") (simp_all add: fit_def)
  obtain p0 where p0: "self_p0 st1 = Some p0"
    using assms(3) st1 by (cases "self_p0 st1") (simp_all add: fit_def)
  obtain res' where
    opt': "optimize (env_of st1) (''dev'' \<in> dom (self_y st1)) p0 n metric tol ''last'' = Inr res'"
    using assms(1,3) st1 p0
    by (cases "optimize (env_of st1) (''dev'' \<in> dom (self_y st1)) p0 n metric tol ''last''")
       (simp_all add: fit_def)
  have "fit np env_of y n metric tol return_model st
          = Inr (st1\<lparr>self_p := (self_p st1)(''opt'' \<mapsto> returned res')\<rparr>, res')"
    using assms(1) st1 p0 opt' by (simp add: fit_def)
  with assms(3) have "(st', res) = (st1\<lparr>self_p := (self_p st1)(''opt'' \<mapsto> returned res')\<rparr>, res')"
    by (simp only: sum.inject)
  then have st': "st' = st1\<lparr>self_p := (self_p st1)(''opt'' \<mapsto> returned res')\<rparr>"
    and "res = res'"
    by (simp_all only: prod.inject)
  with opt' have
    opt: "optimize (env_of st1) (''dev'' \<in> dom (self_y st1)) p0 n metric tol ''last'' = Inr res"
    by simp
  from fit_responses_frame [OF st1 assms(2)] assms(1) have "''dev'' \<notin> dom (self_y st1)"
    by simp
  with opt have "optimize (env_of st1) False p0 n metric tol ''last'' = Inr res"
    by simp
  then have "best res = int (last_i res) \<and> returned res = last (all_params res)"
    by (rule optimize_last_without_dev)
  moreover have "self_p st' ''opt'' = Some (returned res)"
    using st' \<open>res = res'\<close> by simp
  moreover have "fit np env_of y n metric tol return_model st
                   = fit np env_of y n metric tol ''last'' st"
    using assms(1) by (rule fit_policy_replaced)
  ultimately show ?thesis
    by blast
qed

lemma rising_short_run:
  "opt_loop (rising_env st) False 2 3 0 (initial_locals (rising_env st) p0 3)
     = (maxiter_stop, 2, locals_at (rising_env st) False p0 3 3)"
proof -
  have "\<forall>j. 0 \<le> j \<and> j < 3 \<longrightarrow> stop_at (rising_env st) False p0 2 3 j = None"
    by (simp add: stop_at_early)
  from opt_loop_no_stop [OF this] show ?thesis
    by (simp add: initial_locals_at [where has_dev = False])
qed

lemma rising_short_optimize:
  "\<exists>res. optimize (rising_env st) False p0 3 ''corrcoef'' 2 ''last'' = Inr res \<and>
         returned res = counting_params 3"
  by (simp add: optimize_def rising_short_run select_best_def py_index_def locals_at_def Let_def
        rising_params upt3)

theorem C10_last_iterate_witness:
  "''dev'' \<notin> dom (self_y initialised_model) \<and> \<not> supplies_dev train_alone \<and>
   (\<exists>st' res.
      fit list_np rising_env train_alone 3 ''corrcoef'' 2 ''best_dev_cost'' initialised_model
        = Inr (st', res) \<and>
      returned res = counting_params 3 \<and> returned res = last (all_params res) \<and>
      self_p st' ''opt'' = Some (counting_params 3))"
proof -
  have nodev: "''dev'' \<notin> dom (self_y initialised_model)"
    by (simp add: initialised_model_def new_glm_def)
  have nosup: "\<not> supplies_dev train_alone"
    by (simp add: supplies_dev_def train_alone_def)
  obtain st1 where st1: "fit_responses list_np train_alone initialised_model = Inr st1"
    and dev: "''dev'' \<notin> dom (self_y st1)" and p0: "self_p0 st1 = Some (counting_params 0)"
    by (simp add: fit_responses_def train_alone_def initialised_model_def new_glm_def
          lookup_def list_np_def)
  from rising_short_optimize [of st1 "counting_params 0"] obtain res where
    res: "optimize (rising_env st1) False (counting_params 0) 3 ''corrcoef'' 2 ''last'' = Inr res"
    and ret: "returned res = counting_params 3"
    by blast
  have run: "fit list_np rising_env train_alone 3 ''corrcoef'' 2 ''best_dev_cost'' initialised_model
          = Inr (st1\<lparr>self_p := (self_p st1)(''opt'' \<mapsto> returned res)\<rparr>, res)"
    using nodev st1 dev p0 res by (simp add: fit_def)
  from C10_last_iterate_without_dev [OF nodev nosup run] ret
  have "returned res = counting_params 3" and "returned res = last (all_params res)"
    and "self_p (st1\<lparr>self_p := (self_p st1)(''opt'' \<mapsto> returned res)\<rparr>) ''opt''
           = Some (counting_params 3)"
    by simp_all
  with run have "\<exists>st' res.
      fit list_np rising_env train_alone 3 ''corrcoef'' 2 ''best_dev_cost'' initialised_model
        = Inr (st', res) \<and>
      returned res = counting_params 3 \<and> returned res = last (all_params res) \<and>
      self_p st' ''opt'' = Some (counting_params 3)"
    by blast
  with nodev nosup show ?thesis
    by blast
qed

end
